theory Spec2Isabelle
  imports Complex_Main "HOL-Library.AList" "HOL-Library.Sublist" "HOL-Library.Option_ord"
begin

section \<open>CortexPool: data model\<close>

text \<open>
  The embedding follows \<^verbatim>\<open>src/src/cortex-pool.ts\<close>. JavaScript numbers that hold
  identifiers, counters and millisecond timestamps are \<^typ>\<open>int\<close>; numbers that hold
  importances, confidences, similarities and scores are \<^typ>\<open>real\<close>. Their arithmetic is
  exact, except in \<^verbatim>\<open>applyDecay\<close>, whose formula is written with the rounding of every
  operation explicit. Strings are lists of code units below 256.
  Every reading of \<^verbatim>\<open>Date.now()\<close> inside one call is the parameter \<open>now\<close> of that call.
\<close>

datatype MemoryTier = episodic | semantic | structural

datatype EntityType = person | project | concept | tool | preference | website | other

record Entity =
  e_id :: int
  e_name :: string
  e_canonicalName :: string
  e_type :: EntityType
  e_aliases :: "string list"
  e_confidence :: real
  e_createdAt :: int

record Fact =
  f_id :: int
  f_subjectId :: int
  f_predicate :: string
  f_objectId :: "int option"
  f_content :: string
  f_tier :: MemoryTier
  f_importance :: real
  f_confidence :: real
  f_source :: string
  f_lastUsed :: int
  f_useCount :: int
  f_createdAt :: int
  f_ttl :: "int option"

record PoolEntry =
  factId :: int
  relevanceScore :: real
  addedAt :: int

record ActivationHistoryEntry =
  entityId :: int
  activation :: real
  timestamp :: int
  source :: string

record Contradiction =
  fact1Id :: int
  fact2Id :: int
  detectedAt :: int

record CoReference =
  cr_pronoun :: string
  cr_entityId :: int
  cr_lastSeen :: int

record TopicRow =
  topic :: string
  canonicalTopic :: string
  weight :: real
  lastSeen :: int

text \<open>A row of the \<^verbatim>\<open>reflections\<close> table: the action with the counts its JSON details hold.\<close>

datatype ReflectionDetails = DecayDetails nat | ReflectDetails nat nat

record Reflection =
  r_details :: ReflectionDetails
  r_createdAt :: int

record TierConfig =
  decayRate :: real
  baseImportance :: real
  maxAge :: "int option"

text \<open>\<^verbatim>\<open>TIER_CONFIG\<close>; the structural tier's \<^verbatim>\<open>maxAge: Infinity\<close> is \<open>None\<close>.\<close>

fun TIER_CONFIG :: "MemoryTier \<Rightarrow> TierConfig" where
  "TIER_CONFIG episodic =
     \<lparr>decayRate = 0.1, baseImportance = 0.3, maxAge = Some (24 * 60 * 60 * 1000)\<rparr>"
| "TIER_CONFIG semantic =
     \<lparr>decayRate = 0.01, baseImportance = 0.6, maxAge = Some (365 * 24 * 60 * 60 * 1000)\<rparr>"
| "TIER_CONFIG structural =
     \<lparr>decayRate = 0.001, baseImportance = 0.8, maxAge = None\<rparr>"

text \<open>
  The state of one \<^verbatim>\<open>CortexPool\<close> instance: the tables of its database, each a list of
  rows in the order a table scan returns them (rowid order; the rowid of the pool table is
  its key \<^verbatim>\<open>factId\<close>), the \<^verbatim>\<open>AUTOINCREMENT\<close> counters of the two tables whose ids are
  read back, and the in-memory fields of the class. A \<^verbatim>\<open>Map\<close> is an association list in
  insertion order. The surrogate ids of the log tables and the co-reference cache are not
  modelled, and no modelled method writes the table \<^verbatim>\<open>co_references\<close>.

  The store enforces the foreign keys that \<^verbatim>\<open>init()\<close> declares. On the parent side this is
  modelled: a \<^verbatim>\<open>DELETE\<close> of a fact or of an entity that a row of another table names
  raises and changes nothing (\<open>deleteFact\<close>, \<open>deleteEntity\<close> below). On the child side, every
  statement of the code that writes a referencing column writes an id that it has just
  read from the parent table or from a referencing column, so it cannot fail in a store
  whose references are intact; of these checks only the one of the pool is modelled.
  \<^verbatim>\<open>UNIQUE(canonicalName)\<close> is not enforced by the model: \<open>addEntity\<close> looks the canonical
  name up before it inserts.
\<close>

record Cortex =
  entities :: "Entity list"
  facts :: "Fact list"
  contradictions :: "Contradiction list"
  pool :: "PoolEntry list"
  co_references :: "CoReference list"
  topics :: "TopicRow list"
  reflections :: "Reflection list"
  activation_history :: "ActivationHistoryEntry list"
  entities_seq :: int
  facts_seq :: int
  currentTopics :: "string list"
  activationLevels :: "(int \<times> real) list"
  activationHistory :: "ActivationHistoryEntry list"

section \<open>Store primitives\<close>

text \<open>\<^verbatim>\<open>UPDATE t SET ... WHERE c\<close> and \<^verbatim>\<open>DELETE FROM t WHERE c\<close> on a list of rows.\<close>

definition update_where :: "('a \<Rightarrow> bool) \<Rightarrow> ('a \<Rightarrow> 'a) \<Rightarrow> 'a list \<Rightarrow> 'a list" where
  "update_where c g rows = map (\<lambda>r. if c r then g r else r) rows"

definition delete_where :: "('a \<Rightarrow> bool) \<Rightarrow> 'a list \<Rightarrow> 'a list" where
  "delete_where c rows = filter (\<lambda>r. \<not> c r) rows"

text \<open>The rowid an \<^verbatim>\<open>AUTOINCREMENT\<close> table gives its next row: one more than the
  largest rowid the table has ever held.\<close>

definition next_rowid :: "int \<Rightarrow> int list \<Rightarrow> int" where
  "next_rowid seq ids = 1 + fold max ids seq"

text \<open>What a method can throw: the \<^verbatim>\<open>TypeError\<close> of reading a property of \<^verbatim>\<open>undefined\<close>, an
  error of the vector backend, and the two constraint errors of the store
  (\<^verbatim>\<open>FOREIGN KEY constraint failed\<close>, \<^verbatim>\<open>UNIQUE constraint failed\<close>).\<close>

datatype error = TypeError | VectorError | ForeignKeyError | UniqueError

text \<open>
  \<^verbatim>\<open>DELETE FROM facts WHERE id = ?\<close>. The tables \<^verbatim>\<open>contradictions\<close> (columns \<^verbatim>\<open>fact1Id\<close>,
  \<^verbatim>\<open>fact2Id\<close>) and \<^verbatim>\<open>pool\<close> (column \<^verbatim>\<open>factId\<close>) reference \<^verbatim>\<open>facts(id)\<close>: when the row
  exists and one of their rows names it, the statement raises and no row is deleted.
\<close>

definition factReferenced :: "int \<Rightarrow> Cortex \<Rightarrow> bool" where
  "factReferenced i st =
     ((\<exists>c \<in> set (contradictions st). fact1Id c = i \<or> fact2Id c = i)
      \<or> (\<exists>p \<in> set (pool st). factId p = i))"

definition deleteFact :: "int \<Rightarrow> Cortex \<Rightarrow> Cortex \<times> error option" where
  "deleteFact i st =
     (if (\<exists>f \<in> set (facts st). f_id f = i) \<and> factReferenced i st
      then (st, Some ForeignKeyError)
      else (st\<lparr>facts := delete_where (\<lambda>f. f_id f = i) (facts st)\<rparr>, None))"

text \<open>
  \<^verbatim>\<open>DELETE FROM entities WHERE id = ?\<close>. The tables \<^verbatim>\<open>facts\<close> (columns \<^verbatim>\<open>subjectId\<close>,
  \<^verbatim>\<open>objectId\<close>), \<^verbatim>\<open>co_references\<close> and \<^verbatim>\<open>activation_history\<close> (column \<^verbatim>\<open>entityId\<close>)
  reference \<^verbatim>\<open>entities(id)\<close>.
\<close>

definition entityReferenced :: "int \<Rightarrow> Cortex \<Rightarrow> bool" where
  "entityReferenced i st =
     ((\<exists>f \<in> set (facts st). f_subjectId f = i \<or> f_objectId f = Some i)
      \<or> (\<exists>c \<in> set (co_references st). cr_entityId c = i)
      \<or> (\<exists>h \<in> set (activation_history st). entityId h = i))"

definition deleteEntity :: "int \<Rightarrow> Cortex \<Rightarrow> Cortex \<times> error option" where
  "deleteEntity i st =
     (if (\<exists>e \<in> set (entities st). e_id e = i) \<and> entityReferenced i st
      then (st, Some ForeignKeyError)
      else (st\<lparr>entities := delete_where (\<lambda>e. e_id e = i) (entities st)\<rparr>, None))"

text \<open>
  \<^verbatim>\<open>INSERT INTO pool\<close>. The column \<^verbatim>\<open>factId\<close> is the \<^verbatim>\<open>INTEGER PRIMARY KEY\<close> of the table, so
  it is its rowid: a second row with the same \<^verbatim>\<open>factId\<close> is refused, and a scan of the
  table returns the rows by ascending \<^verbatim>\<open>factId\<close>, in whatever order they were inserted.
  The column references \<^verbatim>\<open>facts(id)\<close>.
\<close>

definition insertPool :: "PoolEntry \<Rightarrow> Cortex \<Rightarrow> Cortex \<times> error option" where
  "insertPool p st =
     (if factId p \<in> factId ` set (pool st) then (st, Some UniqueError)
      else if factId p \<notin> f_id ` set (facts st) then (st, Some ForeignKeyError)
      else (st\<lparr>pool := insort_key factId p (pool st)\<rparr>, None))"

text \<open>A \<^verbatim>\<open>for\<close> loop over a snapshot whose body changes a state and may throw: the first
  error ends the loop, and the state keeps what has been written until then (no method
  opens a transaction).\<close>

fun forEach :: "('a \<Rightarrow> 's \<Rightarrow> 's \<times> error option) \<Rightarrow> 'a list \<Rightarrow> 's \<Rightarrow> 's \<times> error option" where
  "forEach body [] s = (s, None)"
| "forEach body (x # xs) s =
     (case body x s of
        (s1, Some e) \<Rightarrow> (s1, Some e)
      | (s1, None) \<Rightarrow> forEach body xs s1)"

section \<open>Normalizer\<close>

definition isSpace :: "char \<Rightarrow> bool" where
  "isSpace c = (let n = (of_char c :: nat) in (9 \<le> n \<and> n \<le> 13) \<or> n = 32 \<or> n = 160)"

definition toLowerChar :: "char \<Rightarrow> char" where
  "toLowerChar c = (let n = (of_char c :: nat) in
     if (65 \<le> n \<and> n \<le> 90) \<or> (192 \<le> n \<and> n \<le> 222 \<and> n \<noteq> 215) then char_of (n + 32) else c)"

definition toLowerCase :: "string \<Rightarrow> string" where
  "toLowerCase s = map toLowerChar s"

definition trim :: "string \<Rightarrow> string" where
  "trim s = rev (dropWhile isSpace (rev (dropWhile isSpace s)))"

text \<open>\<^verbatim>\<open>replace(/\s+/g, ' ')\<close>: every maximal run of white space becomes one space.
  The flag says that the preceding character belonged to a run already replaced.\<close>

fun collapseSpaces :: "bool \<Rightarrow> string \<Rightarrow> string" where
  "collapseSpaces inRun [] = []"
| "collapseSpaces inRun (c # cs) =
     (if isSpace c then (if inRun then collapseSpaces True cs
                         else CHR '' '' # collapseSpaces True cs)
      else c # collapseSpaces False cs)"

definition normalizeName :: "string \<Rightarrow> string" where
  "normalizeName name = collapseSpaces False (trim (toLowerCase name))"

section \<open>Entities and facts\<close>

definition addEntity :: "string \<Rightarrow> EntityType \<Rightarrow> real \<Rightarrow> int \<Rightarrow> Cortex \<Rightarrow> int \<times> Cortex" where
  "addEntity name type confidence now st =
     (let canonicalName = normalizeName name in
      case find (\<lambda>e. e_canonicalName e = canonicalName) (entities st) of
        Some existing \<Rightarrow>
          (let aliases = e_aliases existing;
               st1 = (if name \<notin> set aliases
                      then st\<lparr>entities := update_where (\<lambda>e. e_id e = e_id existing)
                                 (\<lambda>e. e\<lparr>e_aliases := aliases @ [name]\<rparr>) (entities st)\<rparr>
                      else st);
               newConfidence = (e_confidence existing + confidence) / 2;
               st2 = st1\<lparr>entities := update_where (\<lambda>e. e_id e = e_id existing)
                                 (\<lambda>e. e\<lparr>e_confidence := newConfidence\<rparr>) (entities st1)\<rparr>
           in (e_id existing, st2))
      | None \<Rightarrow>
          (let newId = next_rowid (entities_seq st) (map e_id (entities st))
           in (newId,
               st\<lparr>entities := entities st @
                     [\<lparr>e_id = newId, e_name = name, e_canonicalName = canonicalName,
                       e_type = type, e_aliases = [name], e_confidence = confidence,
                       e_createdAt = now\<rparr>],
                  entities_seq := newId\<rparr>)))"

definition inferType :: "string \<Rightarrow> EntityType" where
  "inferType predicate =
     (case map_of
        [(''knows'', person), (''created'', project), (''fork-of'', project),
         (''prefers'', preference), (''uses'', tool), (''learned'', person),
         (''teachers'', person), (''runs-on'', concept), (''model'', concept),
         (''github'', website), (''caregiver'', person), (''autistic'', person),
         (''used-for'', concept), (''created-by'', person), (''is'', concept),
         (''has'', concept), (''affiliated-with'', person), (''related-to'', concept)]
        predicate of
        Some t \<Rightarrow> t
      | None \<Rightarrow> other)"

text \<open>
  The parameter object of \<^verbatim>\<open>addFact\<close>. An optional field that the caller leaves out
  (or passes as \<^verbatim>\<open>null\<close> or \<^verbatim>\<open>undefined\<close>) is \<open>None\<close>.
\<close>

record AddFactParams =
  p_subject :: string
  p_predicate :: string
  p_object :: "string option"
  p_content :: string
  p_tier :: "MemoryTier option"
  p_confidence :: "real option"
  p_source :: "string option"
  p_ttl :: "int option"

text \<open>JavaScript truthiness of an optional number and of an optional string.\<close>

definition truthyNum :: "int option \<Rightarrow> bool" where
  "truthyNum v = (case v of None \<Rightarrow> False | Some n \<Rightarrow> n \<noteq> 0)"

definition truthyStr :: "string option \<Rightarrow> bool" where
  "truthyStr v = (case v of None \<Rightarrow> False | Some s \<Rightarrow> s \<noteq> [])"

definition addFact :: "AddFactParams \<Rightarrow> int \<Rightarrow> Cortex \<Rightarrow> int \<times> Cortex" where
  "addFact params now st =
     (let tier = (case p_tier params of None \<Rightarrow> semantic | Some t \<Rightarrow> t);
          confidence = (case p_confidence params of None \<Rightarrow> 0.7 | Some c \<Rightarrow> c);
          src = (case p_source params of None \<Rightarrow> ''conversation'' | Some s \<Rightarrow> s);
          ttl = p_ttl params;
          (subjectId, st1) =
             addEntity (p_subject params) (inferType (p_predicate params)) confidence now st;
          (objectId, st2) =
             (if truthyStr (p_object params)
              then (let (i, s) = addEntity (the (p_object params)) other confidence now st1
                    in (Some i, s))
              else (None, st1));
          effectiveTtl = (if tier = episodic \<and> \<not> truthyNum ttl
                          then Some (7 * 24 * 60 * 60 * 1000) else ttl);
          newId = next_rowid (facts_seq st2) (map f_id (facts st2))
      in (newId,
          st2\<lparr>facts := facts st2 @
                [\<lparr>f_id = newId, f_subjectId = subjectId, f_predicate = p_predicate params,
                  f_objectId = objectId, f_content = p_content params, f_tier = tier,
                  f_importance = baseImportance (TIER_CONFIG tier),
                  f_confidence = confidence, f_source = src, f_lastUsed = now,
                  f_useCount = 0, f_createdAt = now,
                  f_ttl = (if truthyNum effectiveTtl then effectiveTtl else None)\<rparr>],
              facts_seq := newId\<rparr>))"

definition getFact :: "int \<Rightarrow> Cortex \<Rightarrow> Fact option" where
  "getFact i st = find (\<lambda>f. f_id f = i) (facts st)"

definition useFact :: "int \<Rightarrow> int \<Rightarrow> Cortex \<Rightarrow> Cortex" where
  "useFact i now st =
     (case getFact i st of
        None \<Rightarrow> st
      | Some row \<Rightarrow>
          (let newImportance = min 1.0 (f_importance row + 0.1)
           in st\<lparr>facts := update_where (\<lambda>f. f_id f = i)
                    (\<lambda>f. f\<lparr>f_importance := newImportance, f_lastUsed := now,
                           f_useCount := f_useCount f + 1\<rparr>) (facts st)\<rparr>))"

text \<open>The fact that a call of \<^verbatim>\<open>addFact\<close> stores: the row with the returned id.\<close>

definition storedFact :: "AddFactParams \<Rightarrow> int \<Rightarrow> Cortex \<Rightarrow> Fact option" where
  "storedFact params now st =
     (let (newId, st') = addFact params now st in getFact newId st')"

text \<open>The state the constructor leaves on a fresh datafile: \<^verbatim>\<open>init()\<close> creates the
  tables empty, and the in-memory fields have their initial values.\<close>

definition init :: Cortex where
  "init = \<lparr>entities = [], facts = [], contradictions = [], pool = [], co_references = [],
            topics = [], reflections = [], activation_history = [], entities_seq = 0,
            facts_seq = 0,
            currentTopics = [], activationLevels = [], activationHistory = []\<rparr>"

section \<open>Similarity\<close>

text \<open>
  One row of the Levenshtein matrix. \<open>lev_row c s1 prev left\<close> fills the cells
  \<^verbatim>\<open>matrix[i][j]\<close>, \<open>j \<ge> 1\<close>, for the character \<open>c = s2[i-1]\<close>: \<open>prev\<close> is the
  previous row from column \<open>j-1\<close> on and \<open>left\<close> is \<^verbatim>\<open>matrix[i][j-1]\<close>.
\<close>

fun lev_row :: "char \<Rightarrow> string \<Rightarrow> nat list \<Rightarrow> nat \<Rightarrow> nat list" where
  "lev_row c (x # xs) (diag # up # prev) left =
     (let v = (if c = x then diag else min (min (diag + 1) (left + 1)) (up + 1))
      in v # lev_row c xs (up # prev) v)"
| "lev_row c xs prev left = []"

definition levenshteinDistance :: "string \<Rightarrow> string \<Rightarrow> nat" where
  "levenshteinDistance s1 s2 =
     (if length s1 = 0 then length s2
      else if length s2 = 0 then length s1
      else last (fold (\<lambda>(i, c) prev. i # lev_row c s1 prev i)
                      (zip [1 ..< Suc (length s2)] s2)
                      [0 ..< Suc (length s1)]))"

definition calculateSimilarity :: "string \<Rightarrow> string \<Rightarrow> real" where
  "calculateSimilarity s1 s2 =
     (let maxLen = max (length s1) (length s2)
      in if maxLen = 0 then 1.0
         else 1.0 - real (levenshteinDistance s1 s2) / real maxLen)"

text \<open>The value \<^verbatim>\<open>maxSimilarity\<close> that the loop body of \<^verbatim>\<open>findFuzzyMatches\<close> computes
  for one entity.\<close>

definition maxSimilarity :: "string \<Rightarrow> Entity \<Rightarrow> real" where
  "maxSimilarity normalizedQuery entity =
     fold (\<lambda>alias m. max m (calculateSimilarity normalizedQuery (normalizeName alias)))
          (e_aliases entity)
          (max 0 (calculateSimilarity normalizedQuery (e_canonicalName entity)))"

text \<open>\<^verbatim>\<open>Array.prototype.sort\<close> is stable, and so is \<^const>\<open>sort_key\<close>; the comparator
  \<^verbatim>\<open>(a, b) => b.similarity - a.similarity\<close> sorts by descending similarity.\<close>

definition findFuzzyMatches :: "string \<Rightarrow> real \<Rightarrow> Cortex \<Rightarrow> Entity list" where
  "findFuzzyMatches query threshold st =
     (let normalizedQuery = normalizeName query;
          matches = filter (\<lambda>(entity, similarity). similarity \<ge> threshold)
                      (map (\<lambda>entity. (entity, maxSimilarity normalizedQuery entity))
                           (entities st))
      in map fst (sort_key (\<lambda>(entity, similarity). - similarity) matches))"

section \<open>The alias column and its LIKE match\<close>

text \<open>
  The \<^verbatim>\<open>aliases\<close> column holds \<^verbatim>\<open>JSON.stringify\<close> of the alias array; every reader
  parses it back, so a row of the model carries the array and \<open>JSON_stringify\<close> gives
  the stored text where the text itself is matched.
\<close>

definition hexDigit :: "nat \<Rightarrow> char" where
  "hexDigit n = ''0123456789abcdef'' ! (n mod 16)"

definition jsonEscape :: "char \<Rightarrow> string" where
  "jsonEscape c = (let n = (of_char c :: nat) in
     if c = CHR 0x22 then [CHR 0x5C, CHR 0x22]
     else if c = CHR 0x5C then [CHR 0x5C, CHR 0x5C]
     else if n = 8 then [CHR 0x5C, CHR ''b'']
     else if n = 9 then [CHR 0x5C, CHR ''t'']
     else if n = 10 then [CHR 0x5C, CHR ''n'']
     else if n = 12 then [CHR 0x5C, CHR ''f'']
     else if n = 13 then [CHR 0x5C, CHR ''r'']
     else if n < 32 then [CHR 0x5C, CHR ''u'', CHR ''0'', CHR ''0'', hexDigit (n div 16), hexDigit n]
     else [c])"

definition jsonString :: "string \<Rightarrow> string" where
  "jsonString s = [CHR 0x22] @ concat (map jsonEscape s) @ [CHR 0x22]"

fun joinWith :: "string \<Rightarrow> string list \<Rightarrow> string" where
  "joinWith sep [] = []"
| "joinWith sep [x] = x"
| "joinWith sep (x # y # ys) = x @ sep @ joinWith sep (y # ys)"

definition JSON_stringify :: "string list \<Rightarrow> string" where
  "JSON_stringify xs = ''['' @ joinWith '','' (map jsonString xs) @ '']''"

text \<open>
  The \<^verbatim>\<open>LIKE\<close> operator of the embedded store, SQLite: in the pattern \<^verbatim>\<open>%\<close> matches any
  run of characters, \<^verbatim>\<open>_\<close> matches any one character, and every other character
  matches itself, upper and lower case of the 26 ASCII letters being equal.
\<close>

definition asciiLower :: "char \<Rightarrow> char" where
  "asciiLower c = (let n = (of_char c :: nat) in
     if 65 \<le> n \<and> n \<le> 90 then char_of (n + 32) else c)"

fun sqlLike :: "string \<Rightarrow> string \<Rightarrow> bool" where
  "sqlLike [] t = (t = [])"
| "sqlLike (p # ps) [] = (p = CHR ''%'' \<and> sqlLike ps [])"
| "sqlLike (p # ps) (c # cs) =
     (if p = CHR ''%'' then sqlLike ps (c # cs) \<or> sqlLike (p # ps) cs
      else (p = CHR ''_'' \<or> asciiLower p = asciiLower c) \<and> sqlLike ps cs)"

text \<open>\<^verbatim>\<open>aliases LIKE '%' + query + '%'\<close> on one row.\<close>

definition aliasesLike :: "string \<Rightarrow> Entity \<Rightarrow> bool" where
  "aliasesLike query entity =
     sqlLike (''%'' @ query @ ''%'') (JSON_stringify (e_aliases entity))"

definition resolveEntity :: "string \<Rightarrow> Cortex \<Rightarrow> Entity option" where
  "resolveEntity query st =
     (let normalized = normalizeName query
      in case find (\<lambda>e. e_canonicalName e = normalized) (entities st) of
           Some byCanonical \<Rightarrow> Some byCanonical
         | None \<Rightarrow>
            (case find (aliasesLike query) (entities st) of
               Some byAlias \<Rightarrow> Some byAlias
             | None \<Rightarrow>
                (case findFuzzyMatches query 0.8 st of
                   m # ms \<Rightarrow> Some m
                 | [] \<Rightarrow> None)))"

section \<open>Topics and activation\<close>

text \<open>\<^verbatim>\<open>m.get(k) || 0\<close> on a \<^verbatim>\<open>Map\<close> of numbers; \<^verbatim>\<open>m.set\<close> is \<^const>\<open>AList.update\<close>,
  which keeps the position of a key already present and appends a new one, and
  \<^verbatim>\<open>m.delete\<close> is \<^const>\<open>AList.delete\<close>.\<close>

definition mapGet0 :: "(int \<times> real) list \<Rightarrow> int \<Rightarrow> real" where
  "mapGet0 m k = (case map_of m k of None \<Rightarrow> 0 | Some v \<Rightarrow> v)"

text \<open>The upsert of \<^verbatim>\<open>setTopics\<close> into the \<^verbatim>\<open>topics\<close> table.\<close>

definition upsertTopic :: "string \<Rightarrow> int \<Rightarrow> TopicRow list \<Rightarrow> TopicRow list" where
  "upsertTopic t now rows =
     (if \<exists>r \<in> set rows. topic r = t
      then update_where (\<lambda>r. topic r = t)
             (\<lambda>r. r\<lparr>weight := weight r * 0.9 + 1.0, lastSeen := now\<rparr>) rows
      else rows @ [\<lparr>topic = t, canonicalTopic = normalizeName t, weight = 1.0,
                    lastSeen = now\<rparr>])"

text \<open>The body of the loop of \<^verbatim>\<open>setTopics\<close> for one topic.\<close>

definition topicStep :: "int \<Rightarrow> string \<Rightarrow> Cortex \<Rightarrow> Cortex" where
  "topicStep now t s =
     (let s1 = s\<lparr>topics := upsertTopic t now (topics s)\<rparr>
      in case resolveEntity t s1 of
           Some entity \<Rightarrow>
             s1\<lparr>activationLevels := AList.update (e_id entity) 1.0 (activationLevels s1)\<rparr>
         | None \<Rightarrow> s1)"

definition setTopics :: "string list \<Rightarrow> int \<Rightarrow> Cortex \<Rightarrow> Cortex" where
  "setTopics ts now st =
     fold (topicStep now) ts (st\<lparr>currentTopics := ts, activationLevels := []\<rparr>)"

text \<open>The body of the loop over \<^verbatim>\<open>this.activationLevels\<close> in layer \<open>d\<close> of
  \<^verbatim>\<open>spreadActivation\<close>, for one entry, on the map \<^verbatim>\<open>newLevels\<close>.\<close>

definition spreadFrom ::
  "Fact list \<Rightarrow> nat \<Rightarrow> real \<Rightarrow> int \<times> real \<Rightarrow> (int \<times> real) list \<Rightarrow> (int \<times> real) list" where
  "spreadFrom fs d decay entry newLevels =
     (let entId = fst entry; act = snd entry
      in if act < 0.01 then newLevels
         else
           (let edgeAttenuation = decay ^ (d + 1);
                related = filter (\<lambda>f. f_subjectId f = entId \<or> f_objectId f = Some entId) fs
            in fold (\<lambda>row nl.
                 (let neighborId = (if f_subjectId row = entId then f_objectId row
                                    else Some (f_subjectId row))
                  in case neighborId of
                       None \<Rightarrow> nl
                     | Some n \<Rightarrow>
                         if n \<noteq> 0 \<and> n \<noteq> entId
                         then (let distanceWeight =
                                     (if f_predicate row = ''related-to'' then 0.7 else 1.0);
                                   attenuatedActivation = act * edgeAttenuation * distanceWeight
                               in AList.update n (max (mapGet0 nl n) attenuatedActivation) nl)
                         else nl))
               related newLevels))"

definition spreadLayer :: "real \<Rightarrow> nat \<Rightarrow> Cortex \<Rightarrow> Cortex" where
  "spreadLayer decay d st =
     (let newLevels = fold (spreadFrom (facts st) d decay) (activationLevels st) []
      in st\<lparr>activationLevels :=
              fold (\<lambda>(i, level) al. AList.update i (max (mapGet0 al i) level) al)
                   newLevels (activationLevels st)\<rparr>)"

definition applyActivationDecay :: "int \<Rightarrow> Cortex \<Rightarrow> Cortex" where
  "applyActivationDecay now st =
     (let decayRate = 0.05
      in st\<lparr>activationLevels :=
              fold (\<lambda>(entId, act) al.
                      (let recentActivations =
                             filter (\<lambda>e. entityId e = entId \<and> now - timestamp e < 60 * 60 * 1000)
                                    (activationHistory st)
                       in if length recentActivations = 0
                          then (let decayed = act * (1 - decayRate)
                                in if decayed < 0.01 then AList.delete entId al
                                   else AList.update entId decayed al)
                          else al))
                   (activationLevels st) (activationLevels st)\<rparr>)"

text \<open>\<^verbatim>\<open>xs.slice(-n)\<close>: the last \<open>n\<close> elements.\<close>

definition sliceLast :: "nat \<Rightarrow> 'a list \<Rightarrow> 'a list" where
  "sliceLast n xs = drop (length xs - n) xs"

definition recordActivationHistory :: "int \<Rightarrow> Cortex \<Rightarrow> Cortex" where
  "recordActivationHistory now st =
     (let pushed = activationHistory st @
                     map (\<lambda>(entId, act). \<lparr>entityId = entId, activation = act,
                                           timestamp = now, source = ''spread''\<rparr>)
                         (activationLevels st);
          trimmed = (if length pushed > 1000 then sliceLast 1000 pushed else pushed)
      in st\<lparr>activationHistory := trimmed,
            activation_history := activation_history st @ sliceLast 100 trimmed\<rparr>)"

definition spreadActivation :: "nat \<Rightarrow> real \<Rightarrow> int \<Rightarrow> Cortex \<Rightarrow> Cortex" where
  "spreadActivation depth decay now st =
     recordActivationHistory now
       (applyActivationDecay now (fold (spreadLayer decay) [0 ..< depth] st))"

section \<open>Relevance and retrieval\<close>

text \<open>\<^verbatim>\<open>s.includes(t)\<close>: \<open>t\<close> occurs in \<open>s\<close> as a contiguous run.\<close>

definition str_includes :: "string \<Rightarrow> string \<Rightarrow> bool" where
  "str_includes s t = sublist t s"

definition typeWeights :: "EntityType \<Rightarrow> real" where
  "typeWeights t =
     (case t of person \<Rightarrow> 0.15 | project \<Rightarrow> 0.15 | preference \<Rightarrow> 0.2 | tool \<Rightarrow> 0.1
      | concept \<Rightarrow> 0.05 | website \<Rightarrow> 0 | other \<Rightarrow> 0)"

definition calculateRelevance :: "Fact \<Rightarrow> int \<Rightarrow> Cortex \<Rightarrow> real" where
  "calculateRelevance row now st =
     (let score0 = f_importance row * f_confidence row
      in case find (\<lambda>e. e_id e = f_subjectId row) (entities st) of
           None \<Rightarrow> score0
         | Some subject \<Rightarrow>
             (let score1 =
                    fold (\<lambda>t score.
                            (let normTopic = normalizeName t;
                                 sc = (if str_includes (e_canonicalName subject) normTopic
                                          \<or> str_includes normTopic (e_canonicalName subject)
                                       then score + 0.4 else score)
                             in if \<exists>alias \<in> set (e_aliases subject).
                                     str_includes (normalizeName alias) normTopic
                                then sc + 0.3 else sc))
                         (currentTopics st) score0;
                  score2 = score1 + mapGet0 (activationLevels st) (f_subjectId row) * 0.3;
                  score3 = score2 + typeWeights (e_type subject);
                  hoursSinceUse = real_of_int (now - f_lastUsed row) / (1000 * 60 * 60);
                  score4 = score3 + max 0 (0.2 - hoursSinceUse * 0.01)
              in min 1.0 score4))"

record RetrievedFact =
  r_fact :: Fact
  r_subject :: Entity
  r_object :: "Entity option"
  r_score :: real

record RetrieveOptions =
  useVectors :: "bool option"
  poolSize :: "nat option"

text \<open>The row that \<^verbatim>\<open>retrieve\<close> inserts into the pool for one chosen \<^verbatim>\<open>(fact, score)\<close>
  pair.\<close>

definition poolRow :: "int \<Rightarrow> Fact \<times> real \<Rightarrow> PoolEntry" where
  "poolRow now p = \<lparr>factId = f_id (fst p), relevanceScore = snd p, addedAt = now\<rparr>"

text \<open>
  The loop of \<^verbatim>\<open>retrieve\<close> over the chosen \<^verbatim>\<open>(fact, score)\<close> pairs: each pair is
  inserted into the pool table, then hydrated and pushed to the array \<^verbatim>\<open>results\<close>.
  \<^verbatim>\<open>hydrateEntity\<close> reads \<^verbatim>\<open>row.aliases\<close>, which throws a \<^verbatim>\<open>TypeError\<close> when no entity
  row has the fact's \<^verbatim>\<open>subjectId\<close>; the rows written so far stay in the pool. The object
  is looked up only for a truthy \<^verbatim>\<open>objectId\<close>, and a missing object row gives \<^verbatim>\<open>null\<close>.
\<close>

fun retrieveLoop ::
  "(Fact \<times> real) list \<Rightarrow> int \<Rightarrow> Cortex \<Rightarrow> RetrievedFact list
     \<Rightarrow> Cortex \<times> (error + RetrievedFact list)" where
  "retrieveLoop [] now st results = (st, Inr results)"
| "retrieveLoop ((row, score) # rest) now st results =
     (case insertPool (poolRow now (row, score)) st of
        (st1, Some e) \<Rightarrow> (st1, Inl e)
      | (st1, None) \<Rightarrow>
          (let subject = find (\<lambda>e. e_id e = f_subjectId row) (entities st1);
               object = (if truthyNum (f_objectId row)
                         then find (\<lambda>e. Some (e_id e) = f_objectId row) (entities st1)
                         else None)
           in case subject of
                None \<Rightarrow> (st1, Inl TypeError)
              | Some subj \<Rightarrow>
                  retrieveLoop rest now st1
                    (results @ [\<lparr>r_fact = row, r_subject = subj, r_object = object,
                                  r_score = score\<rparr>])))"

text \<open>The array \<^verbatim>\<open>scored\<close> of \<^verbatim>\<open>retrieve\<close>, after the stable sort by descending score, in
  the state that \<^verbatim>\<open>setTopics\<close> and \<^verbatim>\<open>spreadActivation\<close> have left.\<close>

definition scored :: "int \<Rightarrow> Cortex \<Rightarrow> (Fact \<times> real) list" where
  "scored now st =
     sort_key (\<lambda>(row, score). - score)
       (map (\<lambda>row. (row, calculateRelevance row now st)) (facts st))"

text \<open>The option \<^verbatim>\<open>useVectors\<close> is accepted and never read; \<^verbatim>\<open>poolSize\<close> defaults to
  the field \<^verbatim>\<open>this.poolSize = 15\<close>.\<close>

definition retrieve ::
  "string list \<Rightarrow> RetrieveOptions \<Rightarrow> int \<Rightarrow> Cortex \<Rightarrow> Cortex \<times> (error + RetrievedFact list)" where
  "retrieve ts options now st =
     (let k = (case poolSize options of None \<Rightarrow> 15 | Some n \<Rightarrow> n);
          st1 = setTopics ts now st;
          st2 = spreadActivation 2 0.5 now st1
      in retrieveLoop (take k (scored now st2)) now (st2\<lparr>pool := []\<rparr>) [])"

record VectorSearchResult =
  v_factId :: int
  v_score :: real

text \<open>The method \<^verbatim>\<open>searchByVector\<close> of the class, a placeholder; \<^verbatim>\<open>hybridRetrieval\<close>
  takes the backend it calls as a parameter, so that a backend that throws can be
  supplied.\<close>

definition searchByVector :: "string \<Rightarrow> nat \<Rightarrow> error + VectorSearchResult list" where
  "searchByVector query limit = Inr []"

text \<open>The second loop of \<^verbatim>\<open>hybridRetrieval\<close>: vector-only hits are appended to the merged
  map; hydrating a hit whose subject row is missing throws.\<close>

fun mergeVectorOnly ::
  "(int \<times> real) list \<Rightarrow> Cortex \<Rightarrow> (int \<times> RetrievedFact) list
     \<Rightarrow> error + (int \<times> RetrievedFact) list" where
  "mergeVectorOnly [] st merged = Inr merged"
| "mergeVectorOnly ((fid, vectorScore) # rest) st merged =
     (if map_of merged fid \<noteq> None then mergeVectorOnly rest st merged
      else case getFact fid st of
             None \<Rightarrow> mergeVectorOnly rest st merged
           | Some row \<Rightarrow>
               (let subject = find (\<lambda>e. e_id e = f_subjectId row) (entities st);
                    object = (if truthyNum (f_objectId row)
                              then find (\<lambda>e. Some (e_id e) = f_objectId row) (entities st)
                              else None)
                in case subject of
                     None \<Rightarrow> Inl TypeError
                   | Some subj \<Rightarrow>
                       mergeVectorOnly rest st
                         (AList.update fid
                            \<lparr>r_fact = row, r_subject = subj, r_object = object,
                              r_score = vectorScore * 0.3\<rparr> merged)))"

definition hybridRetrieval ::
  "(string \<Rightarrow> nat \<Rightarrow> error + VectorSearchResult list) \<Rightarrow> string list \<Rightarrow> nat \<Rightarrow> int \<Rightarrow> Cortex
     \<Rightarrow> Cortex \<times> (error + RetrievedFact list)" where
  "hybridRetrieval backend ts k now st =
     (case retrieve ts \<lparr>useVectors = Some False, poolSize = Some k\<rparr> now st of
        (st1, Inl e) \<Rightarrow> (st1, Inl e)
      | (st1, Inr graphResults) \<Rightarrow>
          (st1,
           Inr (case backend (joinWith '' '' ts) k of
                  Inl e \<Rightarrow> graphResults
                | Inr vectorResults \<Rightarrow>
                    if length vectorResults = 0 then graphResults
                    else
                      (let vectorFactIds =
                             fold (\<lambda>r m. AList.update (v_factId r) (v_score r) m)
                                  vectorResults [];
                           merged0 =
                             fold (\<lambda>result m.
                                     AList.update (f_id (r_fact result))
                                       (result\<lparr>r_score := r_score result * 0.7
                                          + mapGet0 vectorFactIds (f_id (r_fact result)) * 0.3\<rparr>)
                                       m)
                                  graphResults []
                       in case mergeVectorOnly vectorFactIds st1 merged0 of
                            Inl e \<Rightarrow> graphResults
                          | Inr merged \<Rightarrow>
                              take k (sort_key (\<lambda>r. - r_score r) (map snd merged))))))"

section \<open>Maintenance\<close>

text \<open>
  The arithmetic of \<^verbatim>\<open>applyDecay\<close>. The code computes in IEEE doubles: every operation
  returns the rounding \<open>fl\<close> of its exact result, a literal denotes the rounding of its
  decimal value, and \<^verbatim>\<open>Math.exp\<close> is the runtime's approximation of the exponential. The
  formula takes the two as parameters; \<open>exact\<close> is the arithmetic that does not round.
  The subtraction of the two integer timestamps and the negation are exact in doubles.
\<close>

record Arith =
  fl :: "real \<Rightarrow> real"
  Math_exp :: "real \<Rightarrow> real"

definition exact :: Arith where
  "exact = \<lparr>fl = (\<lambda>x. x), Math_exp = exp\<rparr>"

text \<open>The value \<^verbatim>\<open>newImportance\<close> that \<^verbatim>\<open>applyDecay\<close> computes for one fact.\<close>

definition newImportance :: "Arith \<Rightarrow> int \<Rightarrow> Fact \<Rightarrow> real" where
  "newImportance ar now row =
     (let config = TIER_CONFIG (f_tier row);
          base = fl ar (baseImportance config);
          hoursSinceUse = fl ar (real_of_int (now - f_lastUsed row) / (1000 * 60 * 60));
          decay = Math_exp ar (fl ar (- fl ar (decayRate config) * hoursSinceUse))
      in fl ar (base + fl ar (fl ar (f_importance row - base) * decay)))"

text \<open>The loop body of \<^verbatim>\<open>applyDecay\<close>.\<close>

definition decayStep :: "Arith \<Rightarrow> int \<Rightarrow> Fact \<Rightarrow> Cortex \<Rightarrow> Cortex \<times> error option" where
  "decayStep ar now row st =
     (if newImportance ar now row < fl ar 0.1
      then deleteFact (f_id row) st
      else (st\<lparr>facts := update_where (\<lambda>f. f_id f = f_id row)
                  (\<lambda>f. f\<lparr>f_importance := newImportance ar now row\<rparr>) (facts st)\<rparr>, None))"

definition applyDecay :: "Arith \<Rightarrow> int \<Rightarrow> Cortex \<Rightarrow> Cortex \<times> error option" where
  "applyDecay ar now st =
     (let fs = facts st
      in case forEach (decayStep ar now) fs st of
           (st1, Some e) \<Rightarrow> (st1, Some e)
         | (st1, None) \<Rightarrow>
             (st1\<lparr>reflections := reflections st1 @
                    [\<lparr>r_details = DecayDetails (length fs), r_createdAt = now\<rparr>]\<rparr>, None))"

text \<open>The rows of the self-join that \<^verbatim>\<open>detectContradictions\<close> selects.\<close>

definition contradictionCandidates :: "Fact list \<Rightarrow> (Fact \<times> Fact) list" where
  "contradictionCandidates fs =
     concat (map (\<lambda>f1. map (\<lambda>f2. (f1, f2))
                          (filter (\<lambda>f2. f_subjectId f1 = f_subjectId f2
                                         \<and> f_predicate f1 = f_predicate f2
                                         \<and> f_id f1 < f_id f2) fs))
                 fs)"

definition detectContradictions :: "int \<Rightarrow> Cortex \<Rightarrow> nat \<times> Cortex" where
  "detectContradictions now st =
     (let rows = contradictionCandidates (facts st)
      in (length rows,
          st\<lparr>contradictions := contradictions st @
                map (\<lambda>(f1, f2). \<lparr>fact1Id = f_id f1, fact2Id = f_id f2, detectedAt = now\<rparr>)
                    (filter (\<lambda>(f1, f2). f_content f1 \<noteq> f_content f2) rows)\<rparr>))"

text \<open>\<^verbatim>\<open>[...new Set(xs)]\<close>: the first occurrence of every element, in order.\<close>

definition uniqueFirst :: "'a list \<Rightarrow> 'a list" where
  "uniqueFirst xs = rev (remdups (rev xs))"

text \<open>
  The rows that \<^verbatim>\<open>reflect\<close> reads from the \<^verbatim>\<open>entities\<close> table have the columns of that
  table, and \<^verbatim>\<open>objectId\<close> is not one of them: the property \<^verbatim>\<open>entity.objectId\<close> that
  guards the second \<^verbatim>\<open>UPDATE\<close> is \<^verbatim>\<open>undefined\<close> on every row.
\<close>

definition entity_objectId :: "Entity \<Rightarrow> int option" where
  "entity_objectId entity = None"

text \<open>The loop body of the consolidation in \<^verbatim>\<open>reflect\<close>, on the map \<^verbatim>\<open>canonicalMap\<close>
  and the state. When the \<^verbatim>\<open>DELETE\<close> raises, the rewrite of \<^verbatim>\<open>subjectId\<close> has been
  written and the aliases have not been merged.\<close>

definition consolidateStep ::
  "Entity \<Rightarrow> (string \<times> Entity) list \<times> Cortex
     \<Rightarrow> ((string \<times> Entity) list \<times> Cortex) \<times> error option" where
  "consolidateStep entity acc =
     (let canonicalMap = fst acc; st = snd acc; canonical = e_canonicalName entity
      in case map_of canonicalMap canonical of
           Some existing \<Rightarrow>
             (let mergedAliases = uniqueFirst (e_aliases existing @ e_aliases entity);
                  st1 = st\<lparr>facts := update_where (\<lambda>f. f_subjectId f = e_id entity)
                                      (\<lambda>f. f\<lparr>f_subjectId := e_id existing\<rparr>) (facts st)\<rparr>;
                  st2 = (if truthyNum (entity_objectId entity)
                         then st1\<lparr>facts := update_where (\<lambda>f. f_objectId f = Some (e_id entity))
                                      (\<lambda>f. f\<lparr>f_objectId := Some (e_id existing)\<rparr>) (facts st1)\<rparr>
                         else st1)
              in case deleteEntity (e_id entity) st2 of
                   (st3, Some e) \<Rightarrow> ((canonicalMap, st3), Some e)
                 | (st3, None) \<Rightarrow>
                     ((canonicalMap,
                       st3\<lparr>entities := update_where (\<lambda>e. e_id e = e_id existing)
                            (\<lambda>e. e\<lparr>e_aliases := mergedAliases,
                                   e_confidence :=
                                     (e_confidence existing + e_confidence entity) / 2\<rparr>)
                            (entities st3)\<rparr>),
                      None))
         | None \<Rightarrow> ((AList.update canonical entity canonicalMap, st), None))"

definition consolidateEntities :: "Cortex \<Rightarrow> Cortex \<times> error option" where
  "consolidateEntities st =
     (case forEach consolidateStep (entities st) ([], st) of
        ((canonicalMap, st1), e) \<Rightarrow> (st1, e))"

text \<open>The condition under which \<^verbatim>\<open>mergeSimilarFacts\<close> merges the pair \<open>(f1, f2)\<close>.\<close>

definition similarPair :: "Fact \<Rightarrow> Fact \<Rightarrow> bool" where
  "similarPair f1 f2 =
     (f_subjectId f1 = f_subjectId f2 \<and> f_predicate f1 = f_predicate f2
      \<and> calculateSimilarity (f_content f1) (f_content f2) > 0.85)"

text \<open>The row that the \<^verbatim>\<open>UPDATE\<close> of \<^verbatim>\<open>mergeSimilarFacts\<close> makes of a row \<open>r\<close>, from the
  two facts as they were read at the start of the pass.\<close>

definition mergedRow :: "Fact \<Rightarrow> Fact \<Rightarrow> Fact \<Rightarrow> Fact" where
  "mergedRow f1 f2 r =
     r\<lparr>f_confidence := min 1.0 (f_confidence f1 + f_confidence f2),
       f_importance := max (f_importance f1) (f_importance f2),
       f_useCount := f_useCount f1 + f_useCount f2,
       f_lastUsed := max (f_lastUsed f1) (f_lastUsed f2)\<rparr>"

text \<open>The body of the inner loop, on the state and the counter \<^verbatim>\<open>merged\<close>. When the
  \<^verbatim>\<open>DELETE\<close> raises, the \<^verbatim>\<open>UPDATE\<close> of \<open>f1\<close> has been written.\<close>

definition mergePair ::
  "Fact \<Rightarrow> Fact \<Rightarrow> Cortex \<times> nat \<Rightarrow> (Cortex \<times> nat) \<times> error option" where
  "mergePair f1 f2 acc =
     (if similarPair f1 f2
      then (let st = fst acc;
                st1 = st\<lparr>facts := update_where (\<lambda>f. f_id f = f_id f1) (mergedRow f1 f2)
                                    (facts st)\<rparr>
            in case deleteFact (f_id f2) st1 of
                 (st2, Some e) \<Rightarrow> ((st2, snd acc), Some e)
               | (st2, None) \<Rightarrow> ((st2, snd acc + 1), None))
      else (acc, None))"

fun mergeLoop :: "Fact list \<Rightarrow> Cortex \<times> nat \<Rightarrow> (Cortex \<times> nat) \<times> error option" where
  "mergeLoop [] acc = (acc, None)"
| "mergeLoop (f1 # rest) acc =
     (case forEach (mergePair f1) rest acc of
        (acc1, Some e) \<Rightarrow> (acc1, Some e)
      | (acc1, None) \<Rightarrow> mergeLoop rest acc1)"

text \<open>
  \<^verbatim>\<open>SELECT * FROM facts WHERE tier = ?\<close>. The store answers it from the index
  \<^verbatim>\<open>idx_facts_ttl\<close> on \<^verbatim>\<open>(tier, ttl)\<close>, so the rows of one tier come by ascending \<^verbatim>\<open>ttl\<close>,
  those without a \<^verbatim>\<open>ttl\<close> first, and by ascending id within one \<^verbatim>\<open>ttl\<close>. The order on
  \<^typ>\<open>int option\<close> puts \<open>None\<close> first.
\<close>

definition factsOfTier :: "MemoryTier \<Rightarrow> Cortex \<Rightarrow> Fact list" where
  "factsOfTier t st = sort_key f_ttl (filter (\<lambda>f. f_tier f = t) (facts st))"

text \<open>The methods of the compression pass return the state they leave and either the
  error they throw or their count.\<close>

definition mergeSimilarFacts :: "Cortex \<Rightarrow> Cortex \<times> (error + nat)" where
  "mergeSimilarFacts st =
     (let fs = factsOfTier semantic st
      in case mergeLoop fs (st, 0) of
           ((st1, merged), Some e) \<Rightarrow> (st1, Inl e)
         | ((st1, merged), None) \<Rightarrow> (st1, Inr merged))"

definition edgeKey :: "Fact \<Rightarrow> int \<times> string \<times> int option" where
  "edgeKey f = (f_subjectId f, f_predicate f, f_objectId f)"

text \<open>The loop of \<^verbatim>\<open>pruneRedundantEdges\<close> over one group:
  \<^verbatim>\<open>ORDER BY importance DESC, useCount DESC\<close>, rows that tie staying in table order, and
  every row but the first deleted.\<close>

definition pruneGroup ::
  "int \<times> string \<times> int option \<Rightarrow> Cortex \<times> nat \<Rightarrow> (Cortex \<times> nat) \<times> error option" where
  "pruneGroup k acc =
     (let duplicates =
            sort_key (\<lambda>f. - f_importance f)
              (sort_key (\<lambda>f. - f_useCount f)
                 (filter (\<lambda>f. edgeKey f = k) (facts (fst acc))))
      in forEach (\<lambda>d a. case deleteFact (f_id d) (fst a) of
                           (st1, Some e) \<Rightarrow> ((st1, snd a), Some e)
                         | (st1, None) \<Rightarrow> ((st1, snd a + 1), None))
                 (drop 1 duplicates) acc)"

definition pruneRedundantEdges :: "Cortex \<Rightarrow> Cortex \<times> (error + nat)" where
  "pruneRedundantEdges st =
     (let withObject = filter (\<lambda>f. f_objectId f \<noteq> None) (facts st);
          groups = filter (\<lambda>k. length (filter (\<lambda>f. edgeKey f = k) withObject) > 1)
                          (remdups (map edgeKey withObject))
      in case forEach pruneGroup groups (st, 0) of
           ((st1, pruned), Some e) \<Rightarrow> (st1, Inl e)
         | ((st1, pruned), None) \<Rightarrow> (st1, Inr pruned))"

definition summarizeOldFacts :: "int \<Rightarrow> Cortex \<Rightarrow> Cortex \<times> (error + nat)" where
  "summarizeOldFacts now st =
     (let oldFacts =
            sort_key f_createdAt
              (filter (\<lambda>f. f_tier f = semantic \<and> f_importance f > 0.3 \<and> f_useCount f > 3
                            \<and> f_createdAt f < now - 90 * 24 * 60 * 60 * 1000)
                      (facts st));
          r = fold (\<lambda>row acc.
                      if length (f_content row) < 50 then acc
                      else (update_where (\<lambda>f. f_id f = f_id row)
                              (\<lambda>f. f\<lparr>f_content :=
                                       ''[Summarized: '' @ take 100 (f_content row) @ ''...]''\<rparr>)
                              (fst acc),
                            snd acc + 1))
                   oldFacts (facts st, 0)
      in (st\<lparr>facts := fst r\<rparr>, Inr (snd r)))"

definition compressMemory :: "int \<Rightarrow> Cortex \<Rightarrow> Cortex \<times> (error + nat)" where
  "compressMemory now st =
     (case mergeSimilarFacts st of
        (st1, Inl e) \<Rightarrow> (st1, Inl e)
      | (st1, Inr c1) \<Rightarrow>
          (case pruneRedundantEdges st1 of
             (st2, Inl e) \<Rightarrow> (st2, Inl e)
           | (st2, Inr c2) \<Rightarrow>
               (case summarizeOldFacts now st2 of
                  (st3, Inl e) \<Rightarrow> (st3, Inl e)
                | (st3, Inr c3) \<Rightarrow> (st3, Inr (c1 + c2 + c3)))))"

definition refreshPool :: "int \<Rightarrow> Cortex \<Rightarrow> Cortex \<times> error option" where
  "refreshPool now st =
     (if length (currentTopics st) > 0
      then (case retrieve (currentTopics st) \<lparr>useVectors = None, poolSize = None\<rparr> now st of
              (st1, Inl e) \<Rightarrow> (st1, Some e)
            | (st1, Inr results) \<Rightarrow> (st1, None))
      else (st, None))"

record ReflectResult =
  rr_contradictions :: nat
  rr_entities :: nat
  rr_compressed :: nat

text \<open>\<^verbatim>\<open>reflect\<close>, with the arithmetic of its decay step exact. An error thrown by one of
  its steps ends it, and the state keeps what the steps have written.\<close>

definition reflect :: "int \<Rightarrow> Cortex \<Rightarrow> Cortex \<times> (error + ReflectResult)" where
  "reflect now st =
     (case applyDecay exact now st of
        (st1, Some e) \<Rightarrow> (st1, Inl e)
      | (st1, None) \<Rightarrow>
          (let (contradictionCount, st2) = detectContradictions now st1;
               entityRows = entities st2
           in case consolidateEntities st2 of
                (st3, Some e) \<Rightarrow> (st3, Inl e)
              | (st3, None) \<Rightarrow>
                  (case compressMemory now st3 of
                     (st4, Inl e) \<Rightarrow> (st4, Inl e)
                   | (st4, Inr compressed) \<Rightarrow>
                       (case refreshPool now st4 of
                          (st5, Some e) \<Rightarrow> (st5, Inl e)
                        | (st5, None) \<Rightarrow>
                            (st5\<lparr>reflections := reflections st5 @
                                   [\<lparr>r_details = ReflectDetails contradictionCount compressed,
                                     r_createdAt = now\<rparr>]\<rparr>,
                             Inr \<lparr>rr_contradictions = contradictionCount,
                                  rr_entities = length entityRows,
                                  rr_compressed = compressed\<rparr>)))))"

section \<open>Example stores\<close>

text \<open>A store holding one semantic fact whose importance 0.2 lies below the base
  importance 0.6 of its tier and that was last used at time 0.\<close>

definition lowImportanceStore :: Cortex where
  "lowImportanceStore = init\<lparr>
     entities :=
       [\<lparr>e_id = 1, e_name = ''William'', e_canonicalName = ''william'', e_type = preference,
          e_aliases = [''William''], e_confidence = 0.7, e_createdAt = 0\<rparr>],
     facts :=
       [\<lparr>f_id = 1, f_subjectId = 1, f_predicate = ''prefers'', f_objectId = None,
          f_content = ''prefers tabs'', f_tier = semantic, f_importance = 0.2,
          f_confidence = 0.7, f_source = ''conversation'', f_lastUsed = 0, f_useCount = 0,
          f_createdAt = 0, f_ttl = None\<rparr>],
     entities_seq := 1, facts_seq := 1\<rparr>"

text \<open>The same store with the fact's importance raised to 0.9 by use.\<close>

definition usedFactStore :: Cortex where
  "usedFactStore = init\<lparr>
     entities :=
       [\<lparr>e_id = 1, e_name = ''William'', e_canonicalName = ''william'', e_type = preference,
          e_aliases = [''William''], e_confidence = 0.7, e_createdAt = 0\<rparr>],
     facts :=
       [\<lparr>f_id = 1, f_subjectId = 1, f_predicate = ''prefers'', f_objectId = None,
          f_content = ''prefers tabs'', f_tier = semantic, f_importance = 0.9,
          f_confidence = 0.7, f_source = ''conversation'', f_lastUsed = 0, f_useCount = 3,
          f_createdAt = 0, f_ttl = None\<rparr>],
     entities_seq := 1, facts_seq := 1\<rparr>"

text \<open>The store after \<^verbatim>\<open>addFact\<close> has been called twice, at time 1000, with subject
  William, predicate prefers, object tabs and the same content.\<close>

definition twoTabsStore :: Cortex where
  "twoTabsStore = init\<lparr>
     entities :=
       [\<lparr>e_id = 1, e_name = ''William'', e_canonicalName = ''william'', e_type = preference,
          e_aliases = [''William''], e_confidence = 0.7, e_createdAt = 1000\<rparr>,
        \<lparr>e_id = 2, e_name = ''tabs'', e_canonicalName = ''tabs'', e_type = other,
          e_aliases = [''tabs''], e_confidence = 0.7, e_createdAt = 1000\<rparr>],
     facts :=
       [\<lparr>f_id = 1, f_subjectId = 1, f_predicate = ''prefers'', f_objectId = Some 2,
          f_content = ''prefers tabs'', f_tier = semantic, f_importance = 0.6,
          f_confidence = 0.7, f_source = ''conversation'', f_lastUsed = 1000, f_useCount = 0,
          f_createdAt = 1000, f_ttl = None\<rparr>,
        \<lparr>f_id = 2, f_subjectId = 1, f_predicate = ''prefers'', f_objectId = Some 2,
          f_content = ''prefers tabs'', f_tier = semantic, f_importance = 0.6,
          f_confidence = 0.7, f_source = ''conversation'', f_lastUsed = 1000, f_useCount = 0,
          f_createdAt = 1000, f_ttl = None\<rparr>],
     entities_seq := 2, facts_seq := 2\<rparr>"


text \<open>The store after two calls of \<^verbatim>\<open>addFact\<close> at time 1000 that differ in the content
  only: \<^verbatim>\<open>prefers tabs\<close> and \<^verbatim>\<open>prefers tabs.\<close>\<close>

definition similarTabsStore :: Cortex where
  "similarTabsStore = init\<lparr>
     entities :=
       [\<lparr>e_id = 1, e_name = ''William'', e_canonicalName = ''william'', e_type = preference,
          e_aliases = [''William''], e_confidence = 0.7, e_createdAt = 1000\<rparr>,
        \<lparr>e_id = 2, e_name = ''tabs'', e_canonicalName = ''tabs'', e_type = other,
          e_aliases = [''tabs''], e_confidence = 0.7, e_createdAt = 1000\<rparr>],
     facts :=
       [\<lparr>f_id = 1, f_subjectId = 1, f_predicate = ''prefers'', f_objectId = Some 2,
          f_content = ''prefers tabs'', f_tier = semantic, f_importance = 0.6,
          f_confidence = 0.7, f_source = ''conversation'', f_lastUsed = 1000, f_useCount = 0,
          f_createdAt = 1000, f_ttl = None\<rparr>,
        \<lparr>f_id = 2, f_subjectId = 1, f_predicate = ''prefers'', f_objectId = Some 2,
          f_content = ''prefers tabs.'', f_tier = semantic, f_importance = 0.6,
          f_confidence = 0.7, f_source = ''conversation'', f_lastUsed = 1000, f_useCount = 0,
          f_createdAt = 1000, f_ttl = None\<rparr>],
     entities_seq := 2, facts_seq := 2\<rparr>"

text \<open>The store after two calls of \<^verbatim>\<open>addFact\<close> at time 1000 with the same content, the
  first with \<^verbatim>\<open>ttl: 86400000\<close> and the second without a \<^verbatim>\<open>ttl\<close>.\<close>

definition ttlTabsStore :: Cortex where
  "ttlTabsStore = init\<lparr>
     entities :=
       [\<lparr>e_id = 1, e_name = ''William'', e_canonicalName = ''william'', e_type = preference,
          e_aliases = [''William''], e_confidence = 0.7, e_createdAt = 1000\<rparr>,
        \<lparr>e_id = 2, e_name = ''tabs'', e_canonicalName = ''tabs'', e_type = other,
          e_aliases = [''tabs''], e_confidence = 0.7, e_createdAt = 1000\<rparr>],
     facts :=
       [\<lparr>f_id = 1, f_subjectId = 1, f_predicate = ''prefers'', f_objectId = Some 2,
          f_content = ''prefers tabs'', f_tier = semantic, f_importance = 0.6,
          f_confidence = 0.7, f_source = ''conversation'', f_lastUsed = 1000, f_useCount = 0,
          f_createdAt = 1000, f_ttl = Some 86400000\<rparr>,
        \<lparr>f_id = 2, f_subjectId = 1, f_predicate = ''prefers'', f_objectId = Some 2,
          f_content = ''prefers tabs'', f_tier = semantic, f_importance = 0.6,
          f_confidence = 0.7, f_source = ''conversation'', f_lastUsed = 1000, f_useCount = 0,
          f_createdAt = 1000, f_ttl = None\<rparr>],
     entities_seq := 2, facts_seq := 2\<rparr>"

text \<open>The store after two calls of \<^verbatim>\<open>addFact\<close> at time 1000 with the same subject,
  predicate, object and content, the first with the default confidence 0.7 and the second
  with \<^verbatim>\<open>confidence: 0.9\<close>.\<close>

definition twoConfidenceStore :: Cortex where
  "twoConfidenceStore = init\<lparr>
     entities :=
       [\<lparr>e_id = 1, e_name = ''William'', e_canonicalName = ''william'', e_type = preference,
          e_aliases = [''William''], e_confidence = 0.8, e_createdAt = 1000\<rparr>,
        \<lparr>e_id = 2, e_name = ''tabs'', e_canonicalName = ''tabs'', e_type = other,
          e_aliases = [''tabs''], e_confidence = 0.8, e_createdAt = 1000\<rparr>],
     facts :=
       [\<lparr>f_id = 1, f_subjectId = 1, f_predicate = ''prefers'', f_objectId = Some 2,
          f_content = ''prefers tabs'', f_tier = semantic, f_importance = 0.6,
          f_confidence = 0.7, f_source = ''conversation'', f_lastUsed = 1000, f_useCount = 0,
          f_createdAt = 1000, f_ttl = None\<rparr>,
        \<lparr>f_id = 2, f_subjectId = 1, f_predicate = ''prefers'', f_objectId = Some 2,
          f_content = ''prefers tabs'', f_tier = semantic, f_importance = 0.6,
          f_confidence = 0.9, f_source = ''conversation'', f_lastUsed = 1000, f_useCount = 0,
          f_createdAt = 1000, f_ttl = None\<rparr>],
     entities_seq := 2, facts_seq := 2\<rparr>"

text \<open>The store after \<^verbatim>\<open>addEntity('R&D', 'other', 0.5)\<close> at time 1000.\<close>

definition rdStore :: Cortex where
  "rdStore = init\<lparr>
     entities :=
       [\<lparr>e_id = 1, e_name = ''R&D'', e_canonicalName = ''r&d'', e_type = other,
          e_aliases = [''R&D''], e_confidence = 0.5, e_createdAt = 1000\<rparr>],
     entities_seq := 1\<rparr>"

text \<open>A vector backend whose \<^verbatim>\<open>searchByVector\<close> throws on every call.\<close>

definition failingBackend :: "string \<Rightarrow> nat \<Rightarrow> error + VectorSearchResult list" where
  "failingBackend query limit = Inl VectorError"

section \<open>Properties of the store primitives\<close>

lemma fold_max_ge_init: "(s::int) \<le> fold max ids s"
  by (induction ids arbitrary: s) (auto intro: order_trans [OF max.cobounded2])

lemma fold_max_ge_elem: "x \<in> set ids \<Longrightarrow> (x::int) \<le> fold max ids s"
proof (induction ids arbitrary: s)
  case Nil
  then show ?case by simp
next
  case (Cons a ids)
  show ?case
  proof (cases "x = a")
    case True
    have "a \<le> max a s" by simp
    also have "\<dots> \<le> fold max ids (max a s)" by (rule fold_max_ge_init)
    finally show ?thesis using True by simp
  next
    case False
    with Cons show ?thesis by simp
  qed
qed

lemma next_rowid_fresh: "next_rowid seq ids \<notin> set ids"
proof
  assume "next_rowid seq ids \<in> set ids"
  then have "next_rowid seq ids \<le> fold max ids seq" by (rule fold_max_ge_elem)
  then show False by (simp add: next_rowid_def)
qed

lemma find_snoc_fresh:
  "\<forall>x \<in> set xs. \<not> P x \<Longrightarrow> P y \<Longrightarrow> find P (xs @ [y]) = Some y"
  by (induction xs) auto

section \<open>The example stores as the methods build them\<close>

lemma normalizeName_William: "normalizeName ''William'' = ''william''"
  by code_simp

lemma normalizeName_tabs: "normalizeName ''tabs'' = ''tabs''"
  by code_simp

lemma twoTabsStore_built:
  "snd (addFact \<lparr>p_subject = ''William'', p_predicate = ''prefers'', p_object = Some ''tabs'',
                 p_content = ''prefers tabs'', p_tier = None, p_confidence = None,
                 p_source = None, p_ttl = None\<rparr> 1000
         (snd (addFact \<lparr>p_subject = ''William'', p_predicate = ''prefers'',
                         p_object = Some ''tabs'', p_content = ''prefers tabs'', p_tier = None,
                         p_confidence = None, p_source = None, p_ttl = None\<rparr> 1000 init))) =
   twoTabsStore"
  by (simp add: addFact_def addEntity_def normalizeName_William normalizeName_tabs
      inferType_def truthyStr_def truthyNum_def next_rowid_def update_where_def
      twoTabsStore_def init_def Let_def)

lemma similarTabsStore_built:
  "snd (addFact \<lparr>p_subject = ''William'', p_predicate = ''prefers'', p_object = Some ''tabs'',
                 p_content = ''prefers tabs.'', p_tier = None, p_confidence = None,
                 p_source = None, p_ttl = None\<rparr> 1000
         (snd (addFact \<lparr>p_subject = ''William'', p_predicate = ''prefers'',
                         p_object = Some ''tabs'', p_content = ''prefers tabs'', p_tier = None,
                         p_confidence = None, p_source = None, p_ttl = None\<rparr> 1000 init))) =
   similarTabsStore"
  by (simp add: addFact_def addEntity_def normalizeName_William normalizeName_tabs
      inferType_def truthyStr_def truthyNum_def next_rowid_def update_where_def
      similarTabsStore_def init_def Let_def)

lemma ttlTabsStore_built:
  "snd (addFact \<lparr>p_subject = ''William'', p_predicate = ''prefers'', p_object = Some ''tabs'',
                 p_content = ''prefers tabs'', p_tier = None, p_confidence = None,
                 p_source = None, p_ttl = None\<rparr> 1000
         (snd (addFact \<lparr>p_subject = ''William'', p_predicate = ''prefers'',
                         p_object = Some ''tabs'', p_content = ''prefers tabs'', p_tier = None,
                         p_confidence = None, p_source = None, p_ttl = Some 86400000\<rparr>
                 1000 init))) =
   ttlTabsStore"
  by (simp add: addFact_def addEntity_def normalizeName_William normalizeName_tabs
      inferType_def truthyStr_def truthyNum_def next_rowid_def update_where_def
      ttlTabsStore_def init_def Let_def)

lemma twoConfidenceStore_built:
  "snd (addFact \<lparr>p_subject = ''William'', p_predicate = ''prefers'', p_object = Some ''tabs'',
                 p_content = ''prefers tabs'', p_tier = None, p_confidence = Some 0.9,
                 p_source = None, p_ttl = None\<rparr> 1000
         (snd (addFact \<lparr>p_subject = ''William'', p_predicate = ''prefers'',
                         p_object = Some ''tabs'', p_content = ''prefers tabs'', p_tier = None,
                         p_confidence = None, p_source = None, p_ttl = None\<rparr> 1000 init))) =
   twoConfidenceStore"
  by (simp add: addFact_def addEntity_def normalizeName_William normalizeName_tabs
      inferType_def truthyStr_def truthyNum_def next_rowid_def update_where_def
      twoConfidenceStore_def init_def Let_def)

lemma usedFactStore_built:
  "useFact 1 0 (useFact 1 0 (useFact 1 0
     (snd (addFact \<lparr>p_subject = ''William'', p_predicate = ''prefers'', p_object = None,
                     p_content = ''prefers tabs'', p_tier = None, p_confidence = None,
                     p_source = None, p_ttl = None\<rparr> 0 init)))) =
   usedFactStore"
  by (simp add: useFact_def getFact_def addFact_def addEntity_def normalizeName_William
      inferType_def truthyStr_def truthyNum_def next_rowid_def update_where_def
      usedFactStore_def init_def Let_def)

section \<open>addFact: the stored TTL\<close>

text \<open>The row that \<^verbatim>\<open>addFact\<close> inserts is found under the id it returns, and its TTL
  is the supplied one when that is a non-zero number, else the 7-day default for the
  episodic tier, else \<^verbatim>\<open>null\<close>.\<close>

lemma storedFact_ttl:
  "\<exists>f. storedFact params now st = Some f \<and>
       f_ttl f = (if truthyNum (p_ttl params) then p_ttl params
                  else if p_tier params = Some episodic then Some 604800000 else None)"
proof -
  let ?conf = "case p_confidence params of None \<Rightarrow> 0.7 | Some c \<Rightarrow> c"
  obtain sid st1 where s1:
    "addEntity (p_subject params) (inferType (p_predicate params)) ?conf now st = (sid, st1)"
    by (cases "addEntity (p_subject params) (inferType (p_predicate params)) ?conf now st")
  obtain oid st2 where s2:
    "(if truthyStr (p_object params)
      then (case addEntity (the (p_object params)) other ?conf now st1 of
              (i, s) \<Rightarrow> (Some i, s))
      else (None, st1)) = (oid, st2)"
    by (cases "(if truthyStr (p_object params)
      then (case addEntity (the (p_object params)) other ?conf now st1 of
              (i, s) \<Rightarrow> (Some i, s))
      else (None, st1))")
  have fresh:
    "\<forall>x \<in> set (facts st2). \<not> f_id x = next_rowid (facts_seq st2) (map f_id (facts st2))"
    using next_rowid_fresh [of "facts_seq st2" "map f_id (facts st2)"] by force
  show ?thesis
    unfolding storedFact_def addFact_def Let_def s1 s2 prod.case getFact_def
    using fresh
    by (cases "p_tier params"; cases "p_ttl params")
       (auto simp: find_snoc_fresh truthyNum_def split: MemoryTier.splits)
qed

text \<open>
  Claim C6, as amended. A call of \<^verbatim>\<open>addFact\<close> with tier episodic and no TTL stores
  the TTL 604800000 ms (7 days); a call that supplies an explicit TTL other than 0 stores
  that TTL, whatever the tier.
\<close>

theorem addFact_default_ttl:
  "(p_tier params = Some episodic \<and> p_ttl params = None \<longrightarrow>
      (\<exists>f. storedFact params now st = Some f \<and> f_ttl f = Some 604800000)) \<and>
   (\<forall>t. p_ttl params = Some t \<and> t \<noteq> 0 \<longrightarrow>
      (\<exists>f. storedFact params now st = Some f \<and> f_ttl f = Some t))"
  using storedFact_ttl [of params now st] by (auto simp: truthyNum_def)

theorem addFact_default_ttl_witness:
  "(\<exists>f. storedFact \<lparr>p_subject = ''William'', p_predicate = ''mentioned'', p_object = None,
                       p_content = ''said hello'', p_tier = Some episodic,
                       p_confidence = None, p_source = None, p_ttl = None\<rparr> 1000 init = Some f
        \<and> f_ttl f = Some 604800000) \<and>
   (\<exists>f. storedFact \<lparr>p_subject = ''William'', p_predicate = ''mentioned'', p_object = None,
                       p_content = ''said hello'', p_tier = Some episodic,
                       p_confidence = None, p_source = None, p_ttl = Some 3600000\<rparr> 1000 init
          = Some f \<and> f_ttl f = Some 3600000)"
  using addFact_default_ttl [of "\<lparr>p_subject = ''William'', p_predicate = ''mentioned'',
           p_object = None, p_content = ''said hello'', p_tier = Some episodic,
           p_confidence = None, p_source = None, p_ttl = None\<rparr>" 1000 init]
        addFact_default_ttl [of "\<lparr>p_subject = ''William'', p_predicate = ''mentioned'',
           p_object = None, p_content = ''said hello'', p_tier = Some episodic,
           p_confidence = None, p_source = None, p_ttl = Some 3600000\<rparr>" 1000 init]
  by simp

text \<open>
  Claim C6 as stated fails: an episodic fact added with the explicit TTL 0 is stored
  with the TTL 604800000, not with the supplied value.
\<close>

theorem addFact_explicit_ttl_counterexample:
  "map_option f_ttl
     (storedFact \<lparr>p_subject = ''William'', p_predicate = ''mentioned'', p_object = None,
                  p_content = ''said hello'', p_tier = Some episodic,
                  p_confidence = None, p_source = None, p_ttl = Some 0\<rparr> 1000 init)
   \<noteq> Some (Some 0)"
  using storedFact_ttl [of "\<lparr>p_subject = ''William'', p_predicate = ''mentioned'',
           p_object = None, p_content = ''said hello'', p_tier = Some episodic,
           p_confidence = None, p_source = None, p_ttl = Some 0\<rparr>" 1000 init]
  by (auto simp: truthyNum_def)

text \<open>
  Claim C9, as amended. A call of \<^verbatim>\<open>addFact\<close> with tier episodic and the explicit TTL 0
  stores the 7-day default 604800000, because the absence check \<^verbatim>\<open>!ttl\<close> treats 0 as not
  supplied; with any other tier (semantic, structural, or none given, which defaults to
  semantic) an explicit TTL of 0 is stored as \<^verbatim>\<open>null\<close>.
\<close>

theorem addFact_zero_ttl:
  "(p_tier params = Some episodic \<and> p_ttl params = Some 0 \<longrightarrow>
      (\<exists>f. storedFact params now st = Some f \<and> f_ttl f = Some 604800000)) \<and>
   (p_tier params \<noteq> Some episodic \<and> p_ttl params = Some 0 \<longrightarrow>
      (\<exists>f. storedFact params now st = Some f \<and> f_ttl f = None))"
  using storedFact_ttl [of params now st] by (auto simp: truthyNum_def)

theorem addFact_zero_ttl_witness:
  "(\<exists>f. storedFact \<lparr>p_subject = ''Aaron'', p_predicate = ''discussed'', p_object = Some ''memory'',
                       p_content = ''talked about memory'', p_tier = Some episodic,
                       p_confidence = Some 0.9, p_source = None, p_ttl = Some 0\<rparr> 5000 init
          = Some f \<and> f_ttl f = Some 604800000) \<and>
   (\<exists>f. storedFact \<lparr>p_subject = ''Aaron'', p_predicate = ''discussed'', p_object = Some ''memory'',
                       p_content = ''talked about memory'', p_tier = Some structural,
                       p_confidence = Some 0.9, p_source = None, p_ttl = Some 0\<rparr> 5000 init
          = Some f \<and> f_ttl f = None)"
  using addFact_zero_ttl [of "\<lparr>p_subject = ''Aaron'', p_predicate = ''discussed'',
           p_object = Some ''memory'', p_content = ''talked about memory'',
           p_tier = Some episodic, p_confidence = Some 0.9, p_source = None,
           p_ttl = Some 0\<rparr>" 5000 init]
        addFact_zero_ttl [of "\<lparr>p_subject = ''Aaron'', p_predicate = ''discussed'',
           p_object = Some ''memory'', p_content = ''talked about memory'',
           p_tier = Some structural, p_confidence = Some 0.9, p_source = None,
           p_ttl = Some 0\<rparr>" 5000 init]
  by simp

text \<open>
  Claim C9 as stated fails in its second half: for the episodic tier an explicit TTL of 0
  is not stored as \<^verbatim>\<open>null\<close> but as the 7-day default.
\<close>

theorem addFact_zero_ttl_counterexample:
  "map_option f_ttl
     (storedFact \<lparr>p_subject = ''Aaron'', p_predicate = ''discussed'', p_object = Some ''memory'',
                  p_content = ''talked about memory'', p_tier = Some episodic,
                  p_confidence = Some 0.9, p_source = None, p_ttl = Some 0\<rparr> 5000 init)
   \<noteq> Some None"
  using storedFact_ttl [of "\<lparr>p_subject = ''Aaron'', p_predicate = ''discussed'',
           p_object = Some ''memory'', p_content = ''talked about memory'',
           p_tier = Some episodic, p_confidence = Some 0.9, p_source = None,
           p_ttl = Some 0\<rparr>" 5000 init]
  by (auto simp: truthyNum_def)

section \<open>useFact on a missing id\<close>

text \<open>
  Claim C10. For a fact id that no row of the facts table carries, \<^verbatim>\<open>useFact\<close> returns
  (the model has no error branch, as the source has no \<^verbatim>\<open>throw\<close> on this path) and
  leaves the whole state, so every entity and every fact, unchanged.
\<close>

theorem useFact_missing:
  "i \<notin> f_id ` set (facts st) \<Longrightarrow> useFact i now st = st"
proof -
  assume "i \<notin> f_id ` set (facts st)"
  then have "find (\<lambda>f. f_id f = i) (facts st) = None"
    by (auto simp: find_None_iff)
  then show ?thesis by (simp add: useFact_def getFact_def)
qed

theorem useFact_missing_witness:
  "7 \<notin> f_id ` set (facts (snd (addFact \<lparr>p_subject = ''William'', p_predicate = ''prefers'',
           p_object = Some ''tabs'', p_content = ''prefers tabs'', p_tier = None,
           p_confidence = None, p_source = None, p_ttl = None\<rparr> 1000 init))) \<and>
   useFact 7 2000 (snd (addFact \<lparr>p_subject = ''William'', p_predicate = ''prefers'',
           p_object = Some ''tabs'', p_content = ''prefers tabs'', p_tier = None,
           p_confidence = None, p_source = None, p_ttl = None\<rparr> 1000 init))
   = snd (addFact \<lparr>p_subject = ''William'', p_predicate = ''prefers'',
           p_object = Some ''tabs'', p_content = ''prefers tabs'', p_tier = None,
           p_confidence = None, p_source = None, p_ttl = None\<rparr> 1000 init)"
proof -
  have h: "7 \<notin> f_id ` set (facts (snd (addFact \<lparr>p_subject = ''William'',
           p_predicate = ''prefers'', p_object = Some ''tabs'', p_content = ''prefers tabs'',
           p_tier = None, p_confidence = None, p_source = None, p_ttl = None\<rparr> 1000 init)))"
    by (simp add: addFact_def addEntity_def init_def Let_def truthyStr_def truthyNum_def
        next_rowid_def split: prod.splits option.splits)
  show ?thesis using h useFact_missing [OF h, of 2000] by simp
qed

section \<open>Rows by id\<close>

lemma find_id_update_where:
  assumes "\<And>r. f_id (g r) = f_id r"
  shows "find (\<lambda>f. f_id f = k) (update_where (\<lambda>f. f_id f = i) g rows) =
         (if k = i then map_option g (find (\<lambda>f. f_id f = k) rows)
          else find (\<lambda>f. f_id f = k) rows)"
  using assms by (induction rows) (auto simp: update_where_def)

lemma find_id_delete_where:
  "find (\<lambda>f. f_id f = k) (delete_where (\<lambda>f. f_id f = i) rows) =
         (if k = i then None else find (\<lambda>f. f_id f = k) rows)"
  by (induction rows) (auto simp: delete_where_def)

lemma find_self:
  "distinct (map f_id fs) \<Longrightarrow> row \<in> set fs \<Longrightarrow> find (\<lambda>f. f_id f = f_id row) fs = Some row"
  by (induction fs) force+

section \<open>applyDecay\<close>

text \<open>A bound on the importance under one id is kept by the loop of \<^verbatim>\<open>applyDecay\<close> when
  every new importance that the loop can write under that id respects it. This holds
  whether or not the loop is ended by an error.\<close>

lemma find_deleteFact:
  "find (\<lambda>f. f_id f = k) (facts (fst (deleteFact i st))) = None \<or>
   find (\<lambda>f. f_id f = k) (facts (fst (deleteFact i st))) = find (\<lambda>f. f_id f = k) (facts st)"
  by (simp add: deleteFact_def find_id_delete_where)

lemma decayStep_bound:
  assumes "f_id row = k \<Longrightarrow> newImportance ar now row \<le> B"
    and "case find (\<lambda>f. f_id f = k) (facts st) of None \<Rightarrow> True | Some r \<Rightarrow> f_importance r \<le> B"
  shows "case find (\<lambda>f. f_id f = k) (facts (fst (decayStep ar now row st))) of
           None \<Rightarrow> True | Some r \<Rightarrow> f_importance r \<le> B"
proof (cases "newImportance ar now row < fl ar 0.1")
  case True
  then have "decayStep ar now row st = deleteFact (f_id row) st" by (simp add: decayStep_def)
  then show ?thesis using find_deleteFact [of k "f_id row" st] assms(2) by auto
next
  case False
  then have "facts (fst (decayStep ar now row st)) =
      update_where (\<lambda>f. f_id f = f_id row) (\<lambda>f. f\<lparr>f_importance := newImportance ar now row\<rparr>)
        (facts st)"
    by (simp add: decayStep_def)
  then show ?thesis using assms
    by (auto simp: find_id_update_where split: option.splits)
qed

lemma forEach_decayStep_bound:
  assumes "\<forall>r \<in> set fs. f_id r = k \<longrightarrow> newImportance ar now r \<le> B"
    and "case find (\<lambda>f. f_id f = k) (facts st) of None \<Rightarrow> True | Some r \<Rightarrow> f_importance r \<le> B"
  shows "case find (\<lambda>f. f_id f = k) (facts (fst (forEach (decayStep ar now) fs st))) of
           None \<Rightarrow> True | Some r \<Rightarrow> f_importance r \<le> B"
  using assms
proof (induction fs arbitrary: st)
  case Nil
  then show ?case by simp
next
  case (Cons a fs)
  obtain s1 eo where step: "decayStep ar now a st = (s1, eo)" by (cases "decayStep ar now a st")
  have a: "f_id a = k \<Longrightarrow> newImportance ar now a \<le> B" using Cons.prems(1) by simp
  have inv1: "case find (\<lambda>f. f_id f = k) (facts s1) of None \<Rightarrow> True | Some r \<Rightarrow> f_importance r \<le> B"
    using decayStep_bound [of a k ar now B st, OF a Cons.prems(2)] step by simp
  show ?case
  proof (cases eo)
    case None
    have rest: "\<forall>r \<in> set fs. f_id r = k \<longrightarrow> newImportance ar now r \<le> B"
      using Cons.prems(1) by simp
    show ?thesis using Cons.IH [OF rest inv1] step None by simp
  next
    case (Some e)
    then show ?thesis using inv1 step by simp
  qed
qed

text \<open>
  The decay formula with rounding. Let the rounding be monotone and idempotent and keep 0,
  and let the exponential of a non-positive number lie between 0 and 1. For a fact whose
  importance is at least the base \<open>b\<close> of its tier (as the code holds it) and that was not
  used after \<open>now\<close>, the new importance is at most \<open>b + (importance - b)\<close> as the code
  evaluates that sum.
\<close>

lemma newImportance_bound:
  assumes mono: "\<forall>x y. x \<le> y \<longrightarrow> fl ar x \<le> fl ar y"
    and zero: "fl ar 0 = 0"
    and idem: "\<forall>x. fl ar (fl ar x) = fl ar x"
    and ex: "\<forall>x\<le>0. 0 \<le> Math_exp ar x \<and> Math_exp ar x \<le> 1"
    and above: "fl ar (baseImportance (TIER_CONFIG (f_tier row))) \<le> f_importance row"
    and used: "f_lastUsed row \<le> now"
  shows "newImportance ar now row \<le>
           fl ar (fl ar (baseImportance (TIER_CONFIG (f_tier row)))
                  + fl ar (f_importance row - fl ar (baseImportance (TIER_CONFIG (f_tier row)))))"
proof -
  let ?c = "TIER_CONFIG (f_tier row)"
  define b where "b = fl ar (baseImportance ?c)"
  define h where "h = fl ar (real_of_int (now - f_lastUsed row) / (1000 * 60 * 60))"
  define d where "d = Math_exp ar (fl ar (- fl ar (decayRate ?c) * h))"
  define e where "e = fl ar (f_importance row - b)"
  have "0 \<le> decayRate ?c" by (cases "f_tier row") simp_all
  then have rate: "0 \<le> fl ar (decayRate ?c)" using mono zero by metis
  have "0 \<le> real_of_int (now - f_lastUsed row) / (1000 * 60 * 60)" using used by simp
  then have h: "0 \<le> h" unfolding h_def using mono zero by metis
  have "- fl ar (decayRate ?c) * h \<le> 0" using rate h by (simp add: mult_nonneg_nonneg)
  then have "fl ar (- fl ar (decayRate ?c) * h) \<le> 0" using mono zero by metis
  then have d: "0 \<le> d" "d \<le> 1" unfolding d_def using ex by simp_all
  have "0 \<le> f_importance row - b" using above by (simp add: b_def)
  then have e: "0 \<le> e" unfolding e_def using mono zero by metis
  have "e * d \<le> e * 1" using e d(2) by (intro mult_left_mono) simp_all
  then have "fl ar (e * d) \<le> fl ar e" using mono by simp
  moreover have "fl ar e = e" unfolding e_def using idem by simp
  ultimately have "b + fl ar (e * d) \<le> b + e" by simp
  then have "fl ar (b + fl ar (e * d)) \<le> fl ar (b + e)" using mono by simp
  moreover have "newImportance ar now row = fl ar (b + fl ar (e * d))"
    by (simp add: newImportance_def Let_def b_def h_def d_def e_def)
  ultimately show ?thesis by (simp add: b_def e_def)
qed

text \<open>A fact whose importance is the base of its tier, as \<^verbatim>\<open>addFact\<close> stores it, keeps that
  importance in every such arithmetic: the difference is 0 and nothing is rounded. So on
  the stores that \<^verbatim>\<open>addFact\<close> alone has built, what \<^verbatim>\<open>applyDecay\<close> stores does not depend on
  the rounding.\<close>

lemma newImportance_at_base:
  assumes "fl ar 0 = 0"
    and "\<forall>x. fl ar (fl ar x) = fl ar x"
    and "f_importance row = fl ar (baseImportance (TIER_CONFIG (f_tier row)))"
  shows "newImportance ar now row = f_importance row"
  using assms by (simp add: newImportance_def Let_def)

text \<open>
  Claim C2, as amended. Under the assumptions on the arithmetic above, which the rounding
  of doubles to nearest and exact arithmetic both satisfy: in a facts table with distinct
  ids, for every fact whose importance is at least the base importance \<open>b\<close> of its tier
  and whose \<^verbatim>\<open>lastUsed\<close> is not later than the time of the call, \<^verbatim>\<open>applyDecay\<close> leaves under
  the fact's id either no row or a row whose importance is at most the larger of the
  importance before and \<open>b + (importance - b)\<close> as the code evaluates it. In exact arithmetic
  the two are equal; in doubles the sum can be the next double above the importance.
\<close>

theorem applyDecay_not_increasing:
  assumes "\<forall>x y. x \<le> y \<longrightarrow> fl ar x \<le> fl ar y"
    and "fl ar 0 = 0"
    and "\<forall>x. fl ar (fl ar x) = fl ar x"
    and "\<forall>x\<le>0. 0 \<le> Math_exp ar x \<and> Math_exp ar x \<le> 1"
    and "distinct (map f_id (facts st))"
    and "row \<in> set (facts st)"
    and "fl ar (baseImportance (TIER_CONFIG (f_tier row))) \<le> f_importance row"
    and "f_lastUsed row \<le> now"
  shows "case getFact (f_id row) (fst (applyDecay ar now st)) of
           None \<Rightarrow> True
         | Some row' \<Rightarrow>
             f_importance row' \<le>
               max (f_importance row)
                 (fl ar (fl ar (baseImportance (TIER_CONFIG (f_tier row)))
                    + fl ar (f_importance row
                             - fl ar (baseImportance (TIER_CONFIG (f_tier row))))))"
proof -
  define B where "B = max (f_importance row)
                 (fl ar (fl ar (baseImportance (TIER_CONFIG (f_tier row)))
                    + fl ar (f_importance row
                             - fl ar (baseImportance (TIER_CONFIG (f_tier row))))))"
  have new: "newImportance ar now row \<le> B"
    using newImportance_bound [OF assms(1,2,3,4,7,8)] by (simp add: B_def)
  have only: "r = row" if "r \<in> set (facts st)" "f_id r = f_id row" for r
    using that assms(5,6) by (meson distinct_map inj_onD)
  have snap: "\<forall>r \<in> set (facts st). f_id r = f_id row \<longrightarrow> newImportance ar now r \<le> B"
    using only new by blast
  have start: "case find (\<lambda>f. f_id f = f_id row) (facts st) of
                 None \<Rightarrow> True | Some r \<Rightarrow> f_importance r \<le> B"
    using find_self [OF assms(5,6)] by (simp add: B_def)
  have loop: "case find (\<lambda>f. f_id f = f_id row)
                     (facts (fst (forEach (decayStep ar now) (facts st) st))) of
                None \<Rightarrow> True | Some r \<Rightarrow> f_importance r \<le> B"
    using forEach_decayStep_bound [OF snap start] .
  have "facts (fst (applyDecay ar now st)) =
        facts (fst (forEach (decayStep ar now) (facts st) st))"
    by (simp add: applyDecay_def Let_def split: prod.splits option.splits)
  then show ?thesis using loop unfolding B_def by (simp add: getFact_def)
qed

theorem applyDecay_not_increasing_witness:
  "case getFact 1 (fst (applyDecay exact 3600000 usedFactStore)) of
     None \<Rightarrow> True
   | Some row' \<Rightarrow> f_importance row' \<le> 0.9"
proof -
  let ?row = "\<lparr>f_id = 1, f_subjectId = 1, f_predicate = ''prefers'', f_objectId = None,
       f_content = ''prefers tabs'', f_tier = semantic, f_importance = 0.9,
       f_confidence = 0.7, f_source = ''conversation'', f_lastUsed = 0, f_useCount = 3,
       f_createdAt = 0, f_ttl = None\<rparr>"
  have 1: "\<forall>x y. x \<le> y \<longrightarrow> fl exact x \<le> fl exact y" by (simp add: exact_def)
  have 2: "fl exact 0 = 0" by (simp add: exact_def)
  have 3: "\<forall>x. fl exact (fl exact x) = fl exact x" by (simp add: exact_def)
  have 4: "\<forall>x\<le>0. 0 \<le> Math_exp exact x \<and> Math_exp exact x \<le> 1" by (simp add: exact_def)
  have 5: "distinct (map f_id (facts usedFactStore))"
    by (simp add: usedFactStore_def init_def)
  have 6: "?row \<in> set (facts usedFactStore)"
    by (simp add: usedFactStore_def init_def)
  have 7: "fl exact (baseImportance (TIER_CONFIG (f_tier ?row))) \<le> f_importance ?row"
    by (simp add: exact_def)
  have 8: "f_lastUsed ?row \<le> 3600000" by simp
  show ?thesis using applyDecay_not_increasing [OF 1 2 3 4 5 6 7 8]
    by (simp add: exact_def split: option.splits)
qed

text \<open>In exact arithmetic the bound is the importance before.\<close>

lemma applyDecay_exact_not_increasing:
  assumes "distinct (map f_id (facts st))"
    and "row \<in> set (facts st)"
    and "baseImportance (TIER_CONFIG (f_tier row)) \<le> f_importance row"
    and "f_lastUsed row \<le> now"
  shows "case getFact (f_id row) (fst (applyDecay exact now st)) of
           None \<Rightarrow> True
         | Some row' \<Rightarrow> f_importance row' \<le> f_importance row"
proof -
  have new: "newImportance exact now row \<le> f_importance row"
    using newImportance_bound [of exact row now] assms(3,4) by (simp add: exact_def)
  have only: "r = row" if "r \<in> set (facts st)" "f_id r = f_id row" for r
    using that assms(1,2) by (meson distinct_map inj_onD)
  have snap: "\<forall>r \<in> set (facts st). f_id r = f_id row \<longrightarrow>
                newImportance exact now r \<le> f_importance row"
    using only new by blast
  have start: "case find (\<lambda>f. f_id f = f_id row) (facts st) of
                 None \<Rightarrow> True | Some r \<Rightarrow> f_importance r \<le> f_importance row"
    using find_self [OF assms(1,2)] by simp
  have loop: "case find (\<lambda>f. f_id f = f_id row)
                     (facts (fst (forEach (decayStep exact now) (facts st) st))) of
                None \<Rightarrow> True | Some r \<Rightarrow> f_importance r \<le> f_importance row"
    using forEach_decayStep_bound [OF snap start] .
  have "facts (fst (applyDecay exact now st)) =
        facts (fst (forEach (decayStep exact now) (facts st) st))"
    by (simp add: applyDecay_def Let_def split: prod.splits option.splits)
  then show ?thesis using loop by (simp add: getFact_def)
qed

text \<open>
  Claim C2 as stated fails. A semantic fact of importance 0.2 that was last used one year
  (31536000000 ms) before the call is not deleted: \<^verbatim>\<open>applyDecay\<close> stores the importance
  \<open>0.6 - 0.4 * exp (- 87.6)\<close>, which is above 0.2. (In doubles the stored value is 0.6.)
\<close>

theorem applyDecay_increases_counterexample:
  "getFact 1 (fst (applyDecay exact 31536000000 lowImportanceStore)) =
     Some \<lparr>f_id = 1, f_subjectId = 1, f_predicate = ''prefers'', f_objectId = None,
            f_content = ''prefers tabs'', f_tier = semantic,
            f_importance = 0.6 - 0.4 * exp (- 87.6),
            f_confidence = 0.7, f_source = ''conversation'', f_lastUsed = 0, f_useCount = 0,
            f_createdAt = 0, f_ttl = None\<rparr>
   \<and> (0.2::real) < 0.6 - 0.4 * exp (- 87.6)"
proof -
  have "exp (- (438 / 5) :: real) < 1" by simp
  then have e: "\<not> 5 < 4 * exp (- (438 / 5) :: real)" by linarith
  show ?thesis using e
    by (simp add: getFact_def applyDecay_def lowImportanceStore_def init_def decayStep_def
        newImportance_def exact_def update_where_def delete_where_def deleteFact_def Let_def)
qed

section \<open>detectContradictions and the count that reflect returns\<close>

text \<open>\<^verbatim>\<open>detectContradictions\<close> changes no fact, and it appends one row for each selected
  pair whose contents differ.\<close>

lemma detectContradictions_facts:
  "facts (snd (detectContradictions now st)) = facts st"
  by (simp add: detectContradictions_def Let_def)

lemma detectContradictions_rows:
  "length (contradictions (snd (detectContradictions now st))) =
     length (contradictions st) +
     length (filter (\<lambda>(f1, f2). f_content f1 \<noteq> f_content f2)
               (contradictionCandidates (facts st)))"
  by (simp add: detectContradictions_def Let_def)

text \<open>The number it returns is the number of all selected pairs, whether their contents
  differ or not.\<close>

lemma detectContradictions_count:
  "fst (detectContradictions now st) = length (contradictionCandidates (facts st))"
  by (simp add: detectContradictions_def Let_def)

text \<open>
  Claim C3, at the input where the code departs from it. On the store that two identical
  calls of \<^verbatim>\<open>addFact\<close> leave, \<^verbatim>\<open>reflect\<close> returns the contradictions count 1, while no
  row has been recorded in the contradictions table: the two facts share subject and
  predicate and have the same content.
\<close>

theorem reflect_contradictions_count_twoTabs:
  "snd (reflect 5000 twoTabsStore) =
     Inr \<lparr>rr_contradictions = 1, rr_entities = 2, rr_compressed = 1\<rparr>
   \<and> contradictions (fst (reflect 5000 twoTabsStore)) = []"
proof -
  define S1 where "S1 = twoTabsStore\<lparr>reflections :=
    [\<lparr>r_details = DecayDetails 2, r_createdAt = 5000\<rparr>]\<rparr>"
  define S2 where "S2 = S1\<lparr>facts :=
    [\<lparr>f_id = 1, f_subjectId = 1, f_predicate = ''prefers'', f_objectId = Some 2,
      f_content = ''prefers tabs'', f_tier = semantic, f_importance = 0.6,
      f_confidence = 1, f_source = ''conversation'', f_lastUsed = 1000, f_useCount = 0,
      f_createdAt = 1000, f_ttl = None\<rparr>]\<rparr>"
  have 1: "applyDecay exact 5000 twoTabsStore = (S1, None)"
    by (simp add: S1_def twoTabsStore_def applyDecay_def decayStep_def newImportance_def
        exact_def update_where_def init_def Let_def)
  have 2: "detectContradictions 5000 S1 = (1, S1)"
    by (simp add: S1_def twoTabsStore_def detectContradictions_def contradictionCandidates_def
        init_def Let_def)
  have 3: "consolidateEntities S1 = (S1, None)"
    by (simp add: S1_def twoTabsStore_def consolidateEntities_def consolidateStep_def
        init_def Let_def)
  have lev: "levenshteinDistance ''prefers tabs'' ''prefers tabs'' = 0" by code_simp
  have sim: "calculateSimilarity ''prefers tabs'' ''prefers tabs'' = 1"
    by (simp add: calculateSimilarity_def lev)
  have 4: "mergeSimilarFacts S1 = (S2, Inr 1)"
    by (simp add: S2_def S1_def twoTabsStore_def mergeSimilarFacts_def factsOfTier_def
        mergePair_def similarPair_def mergedRow_def sim deleteFact_def factReferenced_def
        update_where_def delete_where_def init_def Let_def)
  have 5: "pruneRedundantEdges S2 = (S2, Inr 0)"
    by (simp add: S2_def S1_def twoTabsStore_def pruneRedundantEdges_def edgeKey_def
        init_def Let_def)
  have 6: "summarizeOldFacts 5000 S2 = (S2, Inr 0)"
    by (simp add: S2_def S1_def twoTabsStore_def summarizeOldFacts_def init_def Let_def)
  have 7: "refreshPool 5000 S2 = (S2, None)"
    by (simp add: S2_def S1_def twoTabsStore_def refreshPool_def init_def)
  have 8: "contradictions S2 = []"
    by (simp add: S2_def S1_def twoTabsStore_def init_def)
  have 9: "length (entities S1) = 2"
    by (simp add: S1_def twoTabsStore_def init_def)
  show ?thesis
    by (simp add: reflect_def compressMemory_def 1 2 3 4 5 6 7 8 9)
qed

section \<open>Duplicate-entity consolidation\<close>

text \<open>\<^verbatim>\<open>addEntity\<close> looks the canonical name up before it inserts, so it keeps the canonical
  names of the entities table distinct, and so does \<^verbatim>\<open>addFact\<close>, which writes entities
  through \<^verbatim>\<open>addEntity\<close> only. The fresh store has no entity.\<close>

lemma update_where_canonicalName:
  assumes "\<And>e. e_canonicalName (g e) = e_canonicalName e"
  shows "map e_canonicalName (update_where c g rows) = map e_canonicalName rows"
  using assms by (induction rows) (simp_all add: update_where_def)

lemma addEntity_unique:
  assumes "distinct (map e_canonicalName (entities st))"
  shows "distinct (map e_canonicalName (entities (snd (addEntity name type confidence now st))))"
proof (cases "find (\<lambda>e. e_canonicalName e = normalizeName name) (entities st)")
  case None
  then have "normalizeName name \<notin> e_canonicalName ` set (entities st)"
    by (auto simp: find_None_iff)
  then show ?thesis using assms None by (simp add: addEntity_def Let_def)
next
  case (Some existing)
  then show ?thesis using assms
    by (simp add: addEntity_def Let_def update_where_canonicalName)
qed

lemma addFact_unique:
  assumes "distinct (map e_canonicalName (entities st))"
  shows "distinct (map e_canonicalName (entities (snd (addFact params now st))))"
proof -
  obtain subjectId st1 where 1:
    "addEntity (p_subject params) (inferType (p_predicate params))
       (case p_confidence params of None \<Rightarrow> 0.7 | Some c \<Rightarrow> c) now st = (subjectId, st1)"
    by (cases "addEntity (p_subject params) (inferType (p_predicate params))
       (case p_confidence params of None \<Rightarrow> 0.7 | Some c \<Rightarrow> c) now st")
  have d1: "distinct (map e_canonicalName (entities st1))"
    using addEntity_unique [OF assms, of "p_subject params" "inferType (p_predicate params)"
        "case p_confidence params of None \<Rightarrow> 0.7 | Some c \<Rightarrow> c" now] 1 by simp
  obtain objectId st2 where 2:
    "addEntity (the (p_object params)) other
       (case p_confidence params of None \<Rightarrow> 0.7 | Some c \<Rightarrow> c) now st1 = (objectId, st2)"
    by (cases "addEntity (the (p_object params)) other
       (case p_confidence params of None \<Rightarrow> 0.7 | Some c \<Rightarrow> c) now st1")
  have d2: "distinct (map e_canonicalName (entities st2))"
    using addEntity_unique [OF d1, of "the (p_object params)" other
        "case p_confidence params of None \<Rightarrow> 0.7 | Some c \<Rightarrow> c" now] 2 by simp
  show ?thesis using d1 d2 by (simp add: addFact_def Let_def 1 2)
qed





section \<open>mergeSimilarFacts\<close>

text \<open>
  Claim C4, at the input where the code departs from it. Two semantic facts share subject
  and predicate, and their contents \<^verbatim>\<open>prefers tabs\<close> and \<^verbatim>\<open>prefers tabs.\<close> have similarity
  12/13, above 0.85. Since the contents differ, \<^verbatim>\<open>detectContradictions\<close>, which \<^verbatim>\<open>reflect\<close>
  runs before the merging, records the pair in the contradictions table. The merging
  updates fact 1, and its \<^verbatim>\<open>DELETE\<close> of fact 2 violates the foreign key of
  \<^verbatim>\<open>contradictions.fact2Id\<close>: \<^verbatim>\<open>reflect\<close> raises, and the higher-id fact is still in the
  table.
\<close>

theorem reflect_merge_raises_similarTabs:
  "snd (reflect 5000 similarTabsStore) = Inl ForeignKeyError
   \<and> facts (fst (reflect 5000 similarTabsStore)) =
     [\<lparr>f_id = 1, f_subjectId = 1, f_predicate = ''prefers'', f_objectId = Some 2,
        f_content = ''prefers tabs'', f_tier = semantic, f_importance = 0.6,
        f_confidence = 1, f_source = ''conversation'', f_lastUsed = 1000, f_useCount = 0,
        f_createdAt = 1000, f_ttl = None\<rparr>,
      \<lparr>f_id = 2, f_subjectId = 1, f_predicate = ''prefers'', f_objectId = Some 2,
        f_content = ''prefers tabs.'', f_tier = semantic, f_importance = 0.6,
        f_confidence = 0.7, f_source = ''conversation'', f_lastUsed = 1000, f_useCount = 0,
        f_createdAt = 1000, f_ttl = None\<rparr>]
   \<and> contradictions (fst (reflect 5000 similarTabsStore)) =
     [\<lparr>fact1Id = 1, fact2Id = 2, detectedAt = 5000\<rparr>]"
proof -
  define S1 where "S1 = similarTabsStore\<lparr>reflections :=
    [\<lparr>r_details = DecayDetails 2, r_createdAt = 5000\<rparr>]\<rparr>"
  define S2 where "S2 = S1\<lparr>contradictions :=
    [\<lparr>fact1Id = 1, fact2Id = 2, detectedAt = 5000\<rparr>]\<rparr>"
  define S3 where "S3 = S2\<lparr>facts :=
    [\<lparr>f_id = 1, f_subjectId = 1, f_predicate = ''prefers'', f_objectId = Some 2,
        f_content = ''prefers tabs'', f_tier = semantic, f_importance = 0.6,
        f_confidence = 1, f_source = ''conversation'', f_lastUsed = 1000, f_useCount = 0,
        f_createdAt = 1000, f_ttl = None\<rparr>,
      \<lparr>f_id = 2, f_subjectId = 1, f_predicate = ''prefers'', f_objectId = Some 2,
        f_content = ''prefers tabs.'', f_tier = semantic, f_importance = 0.6,
        f_confidence = 0.7, f_source = ''conversation'', f_lastUsed = 1000, f_useCount = 0,
        f_createdAt = 1000, f_ttl = None\<rparr>]\<rparr>"
  have 1: "applyDecay exact 5000 similarTabsStore = (S1, None)"
    by (simp add: S1_def similarTabsStore_def applyDecay_def decayStep_def newImportance_def
        exact_def update_where_def init_def Let_def)
  have 2: "detectContradictions 5000 S1 = (1, S2)"
    by (simp add: S2_def S1_def similarTabsStore_def detectContradictions_def
        contradictionCandidates_def init_def Let_def)
  have 3: "consolidateEntities S2 = (S2, None)"
    by (simp add: S2_def S1_def similarTabsStore_def consolidateEntities_def
        consolidateStep_def init_def Let_def)
  have lev: "levenshteinDistance ''prefers tabs'' ''prefers tabs.'' = 1" by code_simp
  have sim: "calculateSimilarity ''prefers tabs'' ''prefers tabs.'' = 12 / 13"
    by (simp add: calculateSimilarity_def lev)
  have 4: "mergeSimilarFacts S2 = (S3, Inl ForeignKeyError)"
    by (simp add: S3_def S2_def S1_def similarTabsStore_def mergeSimilarFacts_def
        factsOfTier_def mergePair_def similarPair_def mergedRow_def sim deleteFact_def
        factReferenced_def update_where_def init_def Let_def)
  have "reflect 5000 similarTabsStore = (S3, Inl ForeignKeyError)"
    by (simp add: reflect_def compressMemory_def 1 2 3 4)
  then show ?thesis by (simp add: S3_def S2_def S1_def similarTabsStore_def init_def)
qed

text \<open>
  The pass takes its pairs in the order of the index on \<^verbatim>\<open>(tier, ttl)\<close>. Of two facts with
  the same content, the first stored with a \<^verbatim>\<open>ttl\<close> and the second without, fact 2 comes
  first in that order: the merging keeps fact 2 and deletes fact 1, the lower id.
\<close>

lemma mergeSimilarFacts_ttl_order:
  "factsOfTier semantic ttlTabsStore =
     [\<lparr>f_id = 2, f_subjectId = 1, f_predicate = ''prefers'', f_objectId = Some 2,
        f_content = ''prefers tabs'', f_tier = semantic, f_importance = 0.6,
        f_confidence = 0.7, f_source = ''conversation'', f_lastUsed = 1000, f_useCount = 0,
        f_createdAt = 1000, f_ttl = None\<rparr>,
      \<lparr>f_id = 1, f_subjectId = 1, f_predicate = ''prefers'', f_objectId = Some 2,
        f_content = ''prefers tabs'', f_tier = semantic, f_importance = 0.6,
        f_confidence = 0.7, f_source = ''conversation'', f_lastUsed = 1000, f_useCount = 0,
        f_createdAt = 1000, f_ttl = Some 86400000\<rparr>]
   \<and> snd (mergeSimilarFacts ttlTabsStore) = Inr 1
   \<and> facts (fst (mergeSimilarFacts ttlTabsStore)) =
     [\<lparr>f_id = 2, f_subjectId = 1, f_predicate = ''prefers'', f_objectId = Some 2,
        f_content = ''prefers tabs'', f_tier = semantic, f_importance = 0.6,
        f_confidence = 1, f_source = ''conversation'', f_lastUsed = 1000, f_useCount = 0,
        f_createdAt = 1000, f_ttl = None\<rparr>]"
proof -
  have lev: "levenshteinDistance ''prefers tabs'' ''prefers tabs'' = 0" by code_simp
  have sim: "calculateSimilarity ''prefers tabs'' ''prefers tabs'' = 1"
    by (simp add: calculateSimilarity_def lev)
  show ?thesis
    by (simp add: ttlTabsStore_def mergeSimilarFacts_def factsOfTier_def mergePair_def
        similarPair_def mergedRow_def sim deleteFact_def factReferenced_def update_where_def
        delete_where_def init_def Let_def)
qed

section \<open>resolveEntity\<close>

lemma sort_key_hd_min:
  fixes f :: "'a \<Rightarrow> real"
  assumes "sort_key f xs = m # ms"
  shows "m \<in> set xs \<and> (\<forall>x \<in> set xs. f m \<le> f x)"
proof -
  have s: "sorted (map f (m # ms))" using sorted_sort_key [of f xs] assms by simp
  have e: "set (m # ms) = set xs" using set_sort [of f xs] assms by simp
  show ?thesis using s e by auto
qed

lemma find_filter_hd: "filter P xs = m # rest \<Longrightarrow> find P xs = Some m"
  by (induction xs) (auto split: if_splits)

lemma sort_key_hd_first:
  fixes f :: "'a \<Rightarrow> real"
  assumes "sort_key f xs = m # ms"
  shows "find (\<lambda>x. f x = f m) xs = Some m"
proof -
  have "filter (\<lambda>y. f y = f m) (sort_key f xs) = filter (\<lambda>y. f y = f m) xs"
    by (rule sort_key_stable)
  then have "filter (\<lambda>y. f y = f m) xs = m # filter (\<lambda>y. f y = f m) ms"
    using assms by simp
  then show ?thesis by (rule find_filter_hd)
qed

text \<open>The first fuzzy match: it reaches the threshold, no entity is more similar, and it
  is the first row of the table among the entities that are as similar.\<close>

lemma findFuzzyMatches_hd:
  assumes "findFuzzyMatches query threshold st = m # ms"
  shows "m \<in> set (entities st)"
    and "maxSimilarity (normalizeName query) m \<ge> threshold"
    and "\<forall>e \<in> set (entities st).
           maxSimilarity (normalizeName query) e \<le> maxSimilarity (normalizeName query) m"
    and "find (\<lambda>e. maxSimilarity (normalizeName query) e = maxSimilarity (normalizeName query) m)
           (entities st) = Some m"
proof -
  let ?sim = "maxSimilarity (normalizeName query)"
  let ?pairs = "map (\<lambda>entity. (entity, ?sim entity)) (entities st)"
  let ?matches = "filter (\<lambda>(entity, similarity). similarity \<ge> threshold) ?pairs"
  let ?key = "\<lambda>(entity, similarity). - (similarity :: real)"
  have eq: "map fst (sort_key ?key ?matches) = m # ms"
    using assms by (simp add: findFuzzyMatches_def Let_def)
  then obtain p ps where srt: "sort_key ?key ?matches = p # ps" and pm: "fst p = m"
    by (cases "sort_key ?key ?matches") auto
  have pin: "p \<in> set ?matches"
    by (rule sort_key_hd_min [OF srt, THEN conjunct1])
  have pmin: "\<forall>x \<in> set ?matches. ?key p \<le> ?key x"
    by (rule sort_key_hd_min [OF srt, THEN conjunct2])
  have p: "p = (m, ?sim m)" using pin pm by auto
  show m_in: "m \<in> set (entities st)" using pin p by auto
  show ge: "?sim m \<ge> threshold" using pin p by auto
  show mx: "\<forall>e \<in> set (entities st). ?sim e \<le> ?sim m"
  proof
    fix e assume e: "e \<in> set (entities st)"
    show "?sim e \<le> ?sim m"
    proof (cases "?sim e \<ge> threshold")
      case True
      then have "(e, ?sim e) \<in> set ?matches" using e by auto
      then have "?key p \<le> ?key (e, ?sim e)" using pmin by blast
      then show ?thesis using p by simp
    next
      case False
      then show ?thesis using ge by simp
    qed
  qed
  have "find (\<lambda>x. ?key x = ?key p) ?matches = Some p" using srt by (rule sort_key_hd_first)
  then have f1: "find (\<lambda>x. snd x = ?sim m) ?matches = Some (m, ?sim m)"
    using p by (simp add: case_prod_unfold)
  have gen: "find (\<lambda>x. snd x = s) (filter (\<lambda>(entity, similarity). similarity \<ge> threshold)
                 (map (\<lambda>entity. (entity, ?sim entity)) es)) = Some (m, s) \<Longrightarrow>
             s \<ge> threshold \<Longrightarrow> find (\<lambda>e. ?sim e = s) es = Some m" for es s
    by (induction es) (auto split: if_splits)
  show "find (\<lambda>e. ?sim e = ?sim m) (entities st) = Some m"
    using gen [OF f1 ge] .
qed

lemma find_first_lowest_id:
  assumes "sorted_wrt (<) (map e_id es)" and "find P es = Some m" and "e \<in> set es" and "P e"
  shows "e_id m \<le> e_id e"
  using assms
proof (induction es)
  case Nil
  then show ?case by simp
next
  case (Cons a es)
  show ?case
  proof (cases "P a")
    case True
    then have "m = a" using Cons.prems(2) by simp
    then show ?thesis using Cons.prems(1,3) by auto
  next
    case False
    then have "e \<noteq> a" using Cons.prems(4) by auto
    then show ?thesis using Cons False by auto
  qed
qed

text \<open>
  The steps of \<^verbatim>\<open>resolveEntity\<close> in their order: the row whose canonical name is the
  normalized query; else the first row whose alias column matches the \<^verbatim>\<open>LIKE\<close> pattern;
  else the entity of highest similarity, if that is at least 0.8, the one of lowest id among
  equals when the table is in rowid order; and \<^verbatim>\<open>null\<close> exactly when all three fail.
\<close>

lemma resolveEntity_steps:
  "(\<forall>e. find (\<lambda>e. e_canonicalName e = normalizeName query) (entities st) = Some e \<longrightarrow>
        resolveEntity query st = Some e)
   \<and> (\<forall>e. find (\<lambda>e. e_canonicalName e = normalizeName query) (entities st) = None \<and>
          find (aliasesLike query) (entities st) = Some e \<longrightarrow>
        resolveEntity query st = Some e)
   \<and> (\<forall>m. find (\<lambda>e. e_canonicalName e = normalizeName query) (entities st) = None \<and>
          find (aliasesLike query) (entities st) = None \<and> resolveEntity query st = Some m \<longrightarrow>
        m \<in> set (entities st) \<and> maxSimilarity (normalizeName query) m \<ge> 0.8 \<and>
        (\<forall>e \<in> set (entities st).
            maxSimilarity (normalizeName query) e \<le> maxSimilarity (normalizeName query) m \<and>
            (sorted_wrt (<) (map e_id (entities st)) \<and>
             maxSimilarity (normalizeName query) e = maxSimilarity (normalizeName query) m \<longrightarrow>
             e_id m \<le> e_id e)))
   \<and> (resolveEntity query st = None \<longleftrightarrow>
        (\<forall>e \<in> set (entities st).
            e_canonicalName e \<noteq> normalizeName query \<and> \<not> aliasesLike query e \<and>
            maxSimilarity (normalizeName query) e < 0.8))"
proof -
  let ?byCanonical = "find (\<lambda>e. e_canonicalName e = normalizeName query) (entities st)"
  let ?byAlias = "find (aliasesLike query) (entities st)"
  let ?sim = "maxSimilarity (normalizeName query)"
  have A: "\<forall>e. ?byCanonical = Some e \<longrightarrow> resolveEntity query st = Some e"
    by (simp add: resolveEntity_def Let_def)
  have B: "\<forall>e. ?byCanonical = None \<and> ?byAlias = Some e \<longrightarrow> resolveEntity query st = Some e"
    by (simp add: resolveEntity_def Let_def)
  have C: "\<forall>m. ?byCanonical = None \<and> ?byAlias = None \<and> resolveEntity query st = Some m \<longrightarrow>
        m \<in> set (entities st) \<and> ?sim m \<ge> 0.8 \<and>
        (\<forall>e \<in> set (entities st). ?sim e \<le> ?sim m \<and>
            (sorted_wrt (<) (map e_id (entities st)) \<and> ?sim e = ?sim m \<longrightarrow> e_id m \<le> e_id e))"
  proof (intro allI impI)
    fix m assume a: "?byCanonical = None \<and> ?byAlias = None \<and> resolveEntity query st = Some m"
    then obtain ms where f: "findFuzzyMatches query 0.8 st = m # ms"
      by (cases "findFuzzyMatches query 0.8 st") (auto simp: resolveEntity_def Let_def)
    note h = findFuzzyMatches_hd [OF f]
    show "m \<in> set (entities st) \<and> ?sim m \<ge> 0.8 \<and>
        (\<forall>e \<in> set (entities st). ?sim e \<le> ?sim m \<and>
            (sorted_wrt (<) (map e_id (entities st)) \<and> ?sim e = ?sim m \<longrightarrow> e_id m \<le> e_id e))"
      using h(1,2,3) find_first_lowest_id [OF _ h(4)] by blast
  qed
  have D: "resolveEntity query st = None \<longleftrightarrow>
        (\<forall>e \<in> set (entities st).
            e_canonicalName e \<noteq> normalizeName query \<and> \<not> aliasesLike query e \<and> ?sim e < 0.8)"
  proof
    assume n: "resolveEntity query st = None"
    have 1: "?byCanonical = None"
      using n by (auto simp: resolveEntity_def Let_def split: option.splits)
    have 2: "?byAlias = None"
      using n by (auto simp: resolveEntity_def Let_def split: option.splits)
    have 3: "findFuzzyMatches query 0.8 st = []"
      using n by (auto simp: resolveEntity_def Let_def split: option.splits list.splits)
    have "\<forall>e \<in> set (entities st). ?sim e < 0.8"
    proof (rule ccontr)
      assume "\<not> (\<forall>e \<in> set (entities st). ?sim e < 0.8)"
      then obtain e where "e \<in> set (entities st)" "?sim e \<ge> 0.8"
        by force
      then have "(e, ?sim e) \<in> set (filter (\<lambda>(entity, similarity). similarity \<ge> 0.8)
                      (map (\<lambda>entity. (entity, ?sim entity)) (entities st)))" by auto
      then have ne: "filter (\<lambda>(entity, similarity). similarity \<ge> 0.8)
                      (map (\<lambda>entity. (entity, ?sim entity)) (entities st)) \<noteq> []"
        by (metis empty_iff list.set(1))
      have "length (findFuzzyMatches query 0.8 st) =
            length (filter (\<lambda>(entity, similarity). similarity \<ge> 0.8)
                      (map (\<lambda>entity. (entity, ?sim entity)) (entities st)))"
        by (simp add: findFuzzyMatches_def Let_def)
      then have "findFuzzyMatches query 0.8 st \<noteq> []"
        using ne by (metis length_0_conv)
      then show False using 3 by simp
    qed
    then show "\<forall>e \<in> set (entities st).
            e_canonicalName e \<noteq> normalizeName query \<and> \<not> aliasesLike query e \<and> ?sim e < 0.8"
      using 1 2 by (auto simp: find_None_iff)
  next
    assume a: "\<forall>e \<in> set (entities st).
            e_canonicalName e \<noteq> normalizeName query \<and> \<not> aliasesLike query e \<and> ?sim e < 0.8"
    have 1: "?byCanonical = None"
      using a by (auto simp: find_None_iff)
    have 2: "?byAlias = None"
      using a by (auto simp: find_None_iff)
    have 3: "findFuzzyMatches query 0.8 st = []"
    proof (cases "findFuzzyMatches query 0.8 st")
      case Nil
      then show ?thesis .
    next
      case (Cons m ms)
      then show ?thesis using findFuzzyMatches_hd(1,2) [OF Cons] a by force
    qed
    show "resolveEntity query st = None" using 3 by (simp add: resolveEntity_def Let_def 1 2)
  qed
  show ?thesis using A B C D by blast
qed

lemma sqlLike_percent [simp]: "sqlLike ''%'' t"
  by (induction t) simp_all

lemma sqlLike_literal_prefix:
  "\<forall>c \<in> set q. c \<noteq> CHR ''%'' \<and> c \<noteq> CHR ''_'' \<Longrightarrow>
   sqlLike (q @ ''%'') t \<longleftrightarrow> prefix (map asciiLower q) (map asciiLower t)"
proof (induction q arbitrary: t)
  case Nil
  then show ?case by simp
next
  case (Cons c cs)
  then show ?case by (cases t) auto
qed

lemma sqlLike_percent_suffix:
  "sqlLike (CHR ''%'' # p) t \<longleftrightarrow> (\<exists>s. suffix s t \<and> sqlLike p s)"
proof (induction t)
  case Nil
  then show ?case by (cases p) auto
next
  case (Cons d ds)
  then show ?case by (auto simp: suffix_Cons)
qed

lemma sublist_map_suffix:
  "sublist xs (map f t) \<longleftrightarrow> (\<exists>s. suffix s t \<and> prefix xs (map f s))"
proof
  assume "sublist xs (map f t)"
  then obtain ys' where y: "suffix ys' (map f t)" "prefix xs ys'"
    by (auto simp: sublist_altdef')
  then obtain zs where "map f t = zs @ ys'" by (auto simp: suffix_def)
  then obtain us vs where "t = us @ vs" "map f vs = ys'" by (auto simp: map_eq_append_conv)
  then show "\<exists>s. suffix s t \<and> prefix xs (map f s)" using y(2) by (auto simp: suffix_def)
next
  assume "\<exists>s. suffix s t \<and> prefix xs (map f s)"
  then obtain s where s: "suffix s t" "prefix xs (map f s)" by blast
  then have "suffix (map f s) (map f t)" by (auto simp: suffix_def)
  then show "sublist xs (map f t)" using s(2) by (auto simp: sublist_altdef')
qed

text \<open>For a query without the characters \<^verbatim>\<open>%\<close> and \<^verbatim>\<open>_\<close>, the alias step is a substring
  match of the query in the stored text of the alias list, the case of ASCII letters being
  ignored.\<close>

lemma aliasesLike_substring:
  assumes "\<forall>c \<in> set query. c \<noteq> CHR ''%'' \<and> c \<noteq> CHR ''_''"
  shows "aliasesLike query entity \<longleftrightarrow>
         sublist (map asciiLower query) (map asciiLower (JSON_stringify (e_aliases entity)))"
  using assms
  by (simp add: aliasesLike_def sqlLike_percent_suffix sqlLike_literal_prefix sublist_map_suffix
      del: sqlLike.simps)

text \<open>
  Claim C5, at the input where the code departs from it. The store holds the one entity
  \<^verbatim>\<open>R&D\<close>. For the query \<^verbatim>\<open>R_D\<close> the normalized query is not the canonical name, the
  query is not a substring of the stored alias list (not even when case is ignored), and
  no entity reaches similarity 0.8, so the three steps of the claim all fail; yet
  \<^verbatim>\<open>resolveEntity\<close> returns the entity, because the alias step is
  \<^verbatim>\<open>aliases LIKE '%R_D%'\<close> and \<^verbatim>\<open>_\<close> is a wildcard of \<^verbatim>\<open>LIKE\<close>.
\<close>

theorem resolveEntity_like_wildcard:
  "resolveEntity ''R_D'' rdStore =
     Some \<lparr>e_id = 1, e_name = ''R&D'', e_canonicalName = ''r&d'', e_type = other,
            e_aliases = [''R&D''], e_confidence = 0.5, e_createdAt = 1000\<rparr>
   \<and> normalizeName ''R_D'' \<noteq> ''r&d''
   \<and> \<not> sublist (map asciiLower ''R_D'') (map asciiLower (JSON_stringify [''R&D'']))
   \<and> findFuzzyMatches ''R_D'' 0.8 rdStore = []"
proof -
  have 1: "resolveEntity ''R_D'' rdStore =
     Some \<lparr>e_id = 1, e_name = ''R&D'', e_canonicalName = ''r&d'', e_type = other,
            e_aliases = [''R&D''], e_confidence = 0.5, e_createdAt = 1000\<rparr>"
    by code_simp
  have 2: "normalizeName ''R_D'' = ''r_d''" by code_simp
  have 3: "\<not> sublist (map asciiLower ''R_D'') (map asciiLower (JSON_stringify [''R&D'']))"
    by code_simp
  have lev: "levenshteinDistance ''r_d'' ''r&d'' = 1" by code_simp
  have norm: "normalizeName ''R&D'' = ''r&d''" by code_simp
  have sim: "calculateSimilarity ''r_d'' ''r&d'' = 2 / 3"
    by (simp add: calculateSimilarity_def lev)
  have 4: "findFuzzyMatches ''R_D'' 0.8 rdStore = []"
    by (simp add: findFuzzyMatches_def rdStore_def init_def maxSimilarity_def 2 norm sim Let_def)
  show ?thesis using 1 3 4 by (simp add: 2)
qed

section \<open>Retrieval and the vector backend\<close>

text \<open>
  Claim C8. \<^verbatim>\<open>retrieve\<close> never reads the option \<^verbatim>\<open>useVectors\<close> and never calls the vector
  backend, so with \<^verbatim>\<open>useVectors: true\<close> it returns what graph-only retrieval returns (and
  leaves the same state), whatever the backend does; and \<^verbatim>\<open>hybridRetrieval\<close>, the one
  caller of \<^verbatim>\<open>searchByVector\<close>, returns the graph-only results when that call throws.
\<close>

theorem retrieve_vector_fallback:
  "retrieve ts \<lparr>useVectors = Some True, poolSize = k\<rparr> now st =
     retrieve ts \<lparr>useVectors = Some False, poolSize = k\<rparr> now st
   \<and> (backend (joinWith '' '' ts) n = Inl e \<longrightarrow>
        hybridRetrieval backend ts n now st =
          retrieve ts \<lparr>useVectors = Some False, poolSize = Some n\<rparr> now st)"
  by (auto simp: retrieve_def hybridRetrieval_def split: prod.splits sum.splits)

theorem retrieve_vector_fallback_witness:
  "failingBackend (joinWith '' '' [''tabs'', ''William'']) 15 = Inl VectorError
   \<and> retrieve [''tabs'', ''William''] \<lparr>useVectors = Some True, poolSize = Some 15\<rparr> 5000 twoTabsStore =
       retrieve [''tabs'', ''William''] \<lparr>useVectors = Some False, poolSize = Some 15\<rparr> 5000 twoTabsStore
   \<and> hybridRetrieval failingBackend [''tabs'', ''William''] 15 5000 twoTabsStore =
       retrieve [''tabs'', ''William''] \<lparr>useVectors = Some False, poolSize = Some 15\<rparr> 5000 twoTabsStore"
proof -
  have h: "failingBackend (joinWith '' '' [''tabs'', ''William'']) 15 = Inl VectorError"
    by (simp add: failingBackend_def)
  show ?thesis
    using h retrieve_vector_fallback [of "[''tabs'', ''William'']" "Some 15" 5000 twoTabsStore
        failingBackend 15 VectorError]
    by simp
qed

section \<open>The pool after retrieve\<close>



























end
